theory Spec2Isabelle
  imports Main "HOL-Library.Sublist" "HOL-Library.Multiset"
begin

text \<open>
  A shallow embedding of the coding agent of \<open>flow.py\<close>: the decision loop that asks
  a text-generation backend for the next tool, the handlers that run the tool and
  record its result in the history, and the edit agent that plans line-range
  replacements for a file and applies them from the bottom of the file upwards.
  Python objects are values of one datatype, exceptions are values of a sum type, the
  shared dictionary is a record, and the backend, the YAML loader and the file
  primitives are parameters. The node protocol of the flow library (\<open>prep\<close>, \<open>exec\<close>,
  \<open>post\<close>, and the action returned by \<open>post\<close> selecting the successor) is written out
  for each node. The definitions come first; the properties follow.
\<close>

section \<open>Python values and exceptions\<close>

text \<open>
  The agent keeps all of its state in dictionaries built from parsed YAML. The values
  that occur are modelled by one datatype: \<open>None\<close>, booleans, integers, strings, lists
  and dictionaries. A dictionary is an association list in insertion order whose keys
  are distinct. Floats, timestamps and binary scalars are left out.
\<close>

datatype pyval =
    PNone
  | PBool bool
  | PInt int
  | PStr string
  | PList "pyval list"
  | PDict "(pyval \<times> pyval) list"

text \<open>Exceptions are values; each carries the text that \<open>str(e)\<close> yields.\<close>

datatype error =
    ValueError string
  | KeyError string
  | TypeError string
  | AttributeError string
  | YAMLError string
  | TransportError string

fun str_error :: "error \<Rightarrow> string" where
  "str_error (ValueError m) = m"
| "str_error (KeyError k) = [CHR 0x27] @ k @ [CHR 0x27]"
| "str_error (TypeError m) = m"
| "str_error (AttributeError m) = m"
| "str_error (YAMLError m) = m"
| "str_error (TransportError m) = m"

text \<open>Truth value of an object, as \<open>if x\<close> and \<open>not x\<close> take it.\<close>

fun truthy :: "pyval \<Rightarrow> bool" where
  "truthy PNone = False"
| "truthy (PBool b) = b"
| "truthy (PInt i) = (i \<noteq> 0)"
| "truthy (PStr s) = (s \<noteq> [])"
| "truthy (PList xs) = (xs \<noteq> [])"
| "truthy (PDict d) = (d \<noteq> [])"

fun type_name :: "pyval \<Rightarrow> string" where
  "type_name PNone = ''NoneType''"
| "type_name (PBool b) = ''bool''"
| "type_name (PInt i) = ''int''"
| "type_name (PStr s) = ''str''"
| "type_name (PList xs) = ''list''"
| "type_name (PDict d) = ''dict''"

section \<open>String operations\<close>

text \<open>\<open>sub in s\<close> on strings: \<open>sub\<close> occurs as a contiguous piece of \<open>s\<close>.\<close>

fun py_in :: "string \<Rightarrow> string \<Rightarrow> bool" where
  "py_in sub [] = (sub = [])"
| "py_in sub (c # cs) = (prefix sub (c # cs) \<or> py_in sub cs)"

text \<open>
  \<open>s.split(sep)\<close> for a non-empty separator: cut at each occurrence of \<open>sep\<close>, found
  from left to right without overlap. The second argument collects, reversed, the
  piece being read. (Python raises on an empty separator; every separator used by the
  agent is a non-empty literal.)
\<close>

function split_from :: "string \<Rightarrow> string \<Rightarrow> string \<Rightarrow> string list" where
  "split_from sep acc [] = [rev acc]"
| "split_from sep acc (c # cs) =
     (if sep \<noteq> [] \<and> prefix sep (c # cs)
      then rev acc # split_from sep [] (drop (length sep - 1) cs)
      else split_from sep (c # acc) cs)"
  by pat_completeness auto
termination
  by (relation "measure (\<lambda>(sep, acc, s). length s)") auto

definition py_split :: "string \<Rightarrow> string \<Rightarrow> string list" where
  "py_split sep s = split_from sep [] s"

text \<open>Whitespace as \<open>str.strip()\<close> sees it, for code points below 256.\<close>

definition is_space :: "char \<Rightarrow> bool" where
  "is_space c =
     (let n = (of_char c :: nat)
      in (9 \<le> n \<and> n \<le> 13) \<or> (28 \<le> n \<and> n \<le> 32) \<or> n = 133 \<or> n = 160)"

definition py_strip :: "string \<Rightarrow> string" where
  "py_strip s = rev (dropWhile is_space (rev (dropWhile is_space s)))"

section \<open>Dictionary and container operations\<close>

text \<open>\<open>d[k] = v\<close>: an existing key keeps its place, a new key goes last.\<close>

fun dict_set :: "(pyval \<times> pyval) list \<Rightarrow> pyval \<Rightarrow> pyval \<Rightarrow> (pyval \<times> pyval) list" where
  "dict_set [] k v = [(k, v)]"
| "dict_set ((k', v') # d) k v = (if k' = k then (k, v) # d else (k', v') # dict_set d k v)"

text \<open>\<open>x[k]\<close> with a string key \<open>k\<close>.\<close>

fun py_getitem :: "pyval \<Rightarrow> string \<Rightarrow> error + pyval" where
  "py_getitem (PDict d) k =
     (case map_of d (PStr k) of None \<Rightarrow> Inl (KeyError k) | Some v \<Rightarrow> Inr v)"
| "py_getitem (PStr s) k = Inl (TypeError ''string indices must be integers'')"
| "py_getitem (PList xs) k =
     Inl (TypeError ''list indices must be integers or slices, not str'')"
| "py_getitem v k =
     Inl (TypeError ([CHR 0x27] @ type_name v @ [CHR 0x27] @ '' object is not subscriptable''))"

text \<open>\<open>x.get(k, default)\<close>: only dictionaries have the method.\<close>

fun py_get :: "pyval \<Rightarrow> string \<Rightarrow> pyval \<Rightarrow> error + pyval" where
  "py_get (PDict d) k dflt = (case map_of d (PStr k) of None \<Rightarrow> Inr dflt | Some v \<Rightarrow> Inr v)"
| "py_get v k dflt =
     Inl (AttributeError ([CHR 0x27] @ type_name v @ [CHR 0x27]
            @ '' object has no attribute '' @ [CHR 0x27] @ ''get'' @ [CHR 0x27]))"

text \<open>\<open>x[k] = v\<close> with a string key \<open>k\<close>.\<close>

fun py_setitem :: "pyval \<Rightarrow> string \<Rightarrow> pyval \<Rightarrow> error + pyval" where
  "py_setitem (PDict d) k v = Inr (PDict (dict_set d (PStr k) v))"
| "py_setitem (PList xs) k v =
     Inl (TypeError ''list indices must be integers or slices, not str'')"
| "py_setitem x k v =
     Inl (TypeError ([CHR 0x27] @ type_name x @ [CHR 0x27]
            @ '' object does not support item assignment''))"

text \<open>\<open>k in x\<close> with a string \<open>k\<close>: key of a dictionary, piece of a string, member of a list.\<close>

fun py_contains :: "string \<Rightarrow> pyval \<Rightarrow> error + bool" where
  "py_contains k (PDict d) = Inr (PStr k \<in> fst ` set d)"
| "py_contains k (PStr s) = Inr (py_in k s)"
| "py_contains k (PList xs) = Inr (PStr k \<in> set xs)"
| "py_contains k v =
     Inl (TypeError (''argument of type '' @ [CHR 0x27] @ type_name v @ [CHR 0x27]
            @ '' is not iterable''))"

section \<open>External collaborators\<close>

text \<open>
  The generation backend, the YAML loader and the file primitives live outside the
  two flow files. They are parameters of the model, collected in one record; \<open>'fs\<close> is
  the state of the file system. Reading primitives inspect it, writing primitives
  return the new one. Each file primitive returns its pair as the flow files unpack it.
  The backend's reply may depend on the prompt and on everything called before.
\<close>

datatype call =
    Call_llm string
  | Call_read_file pyval
  | Call_grep_search pyval pyval pyval pyval string
  | Call_list_dir pyval
  | Call_insert_file pyval pyval
  | Call_delete_file pyval
  | Call_replace_file pyval pyval pyval pyval
  | Call_makedirs pyval
  | Call_rmtree pyval

record 'fs env =
  call_llm :: "call list \<Rightarrow> string \<Rightarrow> error + string"
  safe_load :: "string \<Rightarrow> error + pyval"
  repr_of :: "pyval \<Rightarrow> string"
  read_file :: "pyval \<Rightarrow> 'fs \<Rightarrow> string \<times> bool"
  grep_search :: "pyval \<Rightarrow> pyval \<Rightarrow> pyval \<Rightarrow> pyval \<Rightarrow> string \<Rightarrow> 'fs \<Rightarrow> bool \<times> pyval list"
  list_dir :: "pyval \<Rightarrow> 'fs \<Rightarrow> bool \<times> string"
  insert_file :: "pyval \<Rightarrow> pyval \<Rightarrow> 'fs \<Rightarrow> (bool \<times> string) \<times> 'fs"
  delete_file :: "pyval \<Rightarrow> 'fs \<Rightarrow> (bool \<times> string) \<times> 'fs"
  replace_file :: "pyval \<Rightarrow> pyval \<Rightarrow> pyval \<Rightarrow> pyval \<Rightarrow> 'fs \<Rightarrow> (bool \<times> string) \<times> 'fs"
  makedirs :: "pyval \<Rightarrow> 'fs \<Rightarrow> (error + unit) \<times> 'fs"
  path_exists :: "pyval \<Rightarrow> 'fs \<Rightarrow> bool"
  path_isdir :: "pyval \<Rightarrow> 'fs \<Rightarrow> bool"
  rmtree :: "pyval \<Rightarrow> 'fs \<Rightarrow> (error + unit) \<times> 'fs"

text \<open>The outside world of a run: the file system and the log of calls made so far.\<close>

record 'fs world =
  fs :: 'fs
  calls :: "call list"

section \<open>Decision Parser\<close>

text \<open>
  The layered block extraction of \<open>MainDecisionAgent.exec\<close> (and, again, of
  \<open>AnalyzeAndPlanNode.exec\<close>): a fence tagged \<open>yaml\<close>, else one tagged \<open>yml\<close>, else
  any fence.
\<close>

definition extract_yaml_content :: "string \<Rightarrow> string" where
  "extract_yaml_content response =
     (if py_in ''```yaml'' response then
        (let yaml_blocks = py_split ''```yaml'' response
         in if length yaml_blocks > 1
            then py_strip (hd (py_split ''```'' (yaml_blocks ! 1))) else [])
      else if py_in ''```yml'' response then
        (let yaml_blocks = py_split ''```yml'' response
         in if length yaml_blocks > 1
            then py_strip (hd (py_split ''```'' (yaml_blocks ! 1))) else [])
      else if py_in ''```'' response then
        (let yaml_blocks = py_split ''```'' response
         in if length yaml_blocks > 1 then py_strip (yaml_blocks ! 1) else [])
      else [])"

text \<open>
  The body of the \<open>try\<close> block of \<open>MainDecisionAgent.exec\<close>: when no fenced block
  gives text, the whole response is taken; then the text is loaded and checked.
\<close>

definition decision_yaml_content :: "string \<Rightarrow> string" where
  "decision_yaml_content response =
     (let yaml_content = extract_yaml_content response
      in if yaml_content = [] then py_strip response else yaml_content)"

definition parse_decision :: "'fs env \<Rightarrow> string \<Rightarrow> error + pyval" where
  "parse_decision E response =
     (let yaml_content = decision_yaml_content response
      in case safe_load E yaml_content of
           Inl e \<Rightarrow> Inl e
         | Inr decision \<Rightarrow>
             if \<not> truthy decision then Inl (ValueError ''Invalid tool decision format'')
             else (case py_contains ''tool'' decision of
                     Inl e \<Rightarrow> Inl e
                   | Inr has_tool \<Rightarrow>
                       if \<not> has_tool then Inl (ValueError ''Invalid tool decision format'')
                       else Inr decision))"

text \<open>The \<open>except\<close> branch: the synthetic decision that ends the run.\<close>

definition fallback_decision :: "error \<Rightarrow> pyval" where
  "fallback_decision e =
     PDict [(PStr ''tool'', PStr ''finish''),
            (PStr ''reason'', PStr (''Error parsing tool decision: '' @ str_error e)),
            (PStr ''params'', PDict [])]"

definition decision_of_response :: "'fs env \<Rightarrow> string \<Rightarrow> pyval" where
  "decision_of_response E response =
     (case parse_decision E response of Inr decision \<Rightarrow> decision | Inl e \<Rightarrow> fallback_decision e)"

section \<open>Formatting\<close>

text \<open>Sequencing of steps that may raise: the first exception ends the computation.\<close>

definition and_then :: "error + 'a \<Rightarrow> ('a \<Rightarrow> error + 'b) \<Rightarrow> error + 'b" where
  "and_then r f = (case r of Inl e \<Rightarrow> Inl e | Inr x \<Rightarrow> f x)"

text \<open>Decimal rendering of integers, as \<open>str\<close> and f-strings give it.\<close>

fun str_nat :: "nat \<Rightarrow> string" where
  "str_nat n =
     (if n < 10 then [''0123456789'' ! n]
      else str_nat (n div 10) @ [''0123456789'' ! (n mod 10)])"

declare str_nat.simps [simp del]

definition str_int :: "int \<Rightarrow> string" where
  "str_int i = (if i < 0 then ''-'' @ str_nat (nat (- i)) else str_nat (nat i))"

text \<open>
  \<open>str(v)\<close> as an f-string inserts it. The rendering of lists and dictionaries (the
  \<open>repr\<close> of their items) is left to the environment.
\<close>

fun py_str :: "'fs env \<Rightarrow> pyval \<Rightarrow> string" where
  "py_str E PNone = ''None''"
| "py_str E (PBool b) = (if b then ''True'' else ''False'')"
| "py_str E (PInt i) = str_int i"
| "py_str E (PStr s) = s"
| "py_str E v = repr_of E v"

text \<open>\<open>sep.join(xs)\<close> and \<open>s.replace(old, new)\<close>.\<close>

fun py_join :: "string \<Rightarrow> string list \<Rightarrow> string" where
  "py_join sep [] = []"
| "py_join sep [x] = x"
| "py_join sep (x # y # ys) = x @ sep @ py_join sep (y # ys)"

definition py_replace :: "string \<Rightarrow> string \<Rightarrow> string \<Rightarrow> string" where
  "py_replace old new s = py_join new (py_split old s)"

text \<open>\<open>len(v)\<close> and the items that \<open>for x in v\<close> visits.\<close>

fun py_len :: "pyval \<Rightarrow> error + nat" where
  "py_len (PStr s) = Inr (length s)"
| "py_len (PList xs) = Inr (length xs)"
| "py_len (PDict d) = Inr (length d)"
| "py_len v =
     Inl (TypeError (''object of type '' @ [CHR 0x27] @ type_name v @ [CHR 0x27]
            @ '' has no len()''))"

fun py_iter :: "pyval \<Rightarrow> error + pyval list" where
  "py_iter (PStr s) = Inr (map (\<lambda>c. PStr [c]) s)"
| "py_iter (PList xs) = Inr xs"
| "py_iter (PDict d) = Inr (map fst d)"
| "py_iter v =
     Inl (TypeError ([CHR 0x27] @ type_name v @ [CHR 0x27] @ '' object is not iterable''))"

text \<open>\<open>d.items()\<close>: only dictionaries have the method.\<close>

fun py_items :: "pyval \<Rightarrow> error + (pyval \<times> pyval) list" where
  "py_items (PDict d) = Inr d"
| "py_items v =
     Inl (AttributeError ([CHR 0x27] @ type_name v @ [CHR 0x27]
            @ '' object has no attribute '' @ [CHR 0x27] @ ''items'' @ [CHR 0x27]))"

text \<open>A loop that appends one text per item and stops at the first exception.\<close>

fun concat_each :: "('a \<Rightarrow> error + string) \<Rightarrow> 'a list \<Rightarrow> error + string" where
  "concat_each f [] = Inr []"
| "concat_each f (x # xs) =
     and_then (f x) (\<lambda>s. and_then (concat_each f xs) (\<lambda>rest. Inr (s @ rest)))"

section \<open>History rendering\<close>

text \<open>The lines that \<open>format_history_summary\<close> adds for one match of a search.\<close>

definition format_match :: "'fs env \<Rightarrow> nat \<times> pyval \<Rightarrow> error + string" where
  "format_match E jm =
     (case jm of (j, match) \<Rightarrow>
        and_then (py_get match ''file'' PNone) (\<lambda>file.
        and_then (py_get match ''line'' PNone) (\<lambda>line.
        and_then (py_get match ''content'' PNone) (\<lambda>content.
          Inr (''  '' @ str_nat (j + 1) @ ''. '' @ py_str E file @ '':'' @ py_str E line
                 @ '': '' @ py_str E content @ ''\<newline>'')))))"

text \<open>The rendering of a directory tree, line by line.\<close>

definition format_tree :: "pyval \<Rightarrow> string" where
  "format_tree tree_visualization =
     (case tree_visualization of
        PStr tree \<Rightarrow>
          if tree \<noteq> [] then
            (let clean_tree = py_strip (py_replace [CHR 0x0D, CHR 0x0A] ''\<newline>'' tree)
             in if clean_tree \<noteq> [] then
                  concat (map (\<lambda>line. if py_strip line \<noteq> [] then ''  '' @ line @ ''\<newline>'' else [])
                            (py_split ''\<newline>'' clean_tree))
                else ''  (No tree structure data)\<newline>'')
          else ''  (Empty or inaccessible directory)\<newline>''
      | _ \<Rightarrow> ''  (Empty or inaccessible directory)\<newline>'')"

text \<open>The tool-specific detail lines for a result that is a dictionary.\<close>

definition format_result_details :: "'fs env \<Rightarrow> pyval \<Rightarrow> pyval \<Rightarrow> bool \<Rightarrow> error + string" where
  "format_result_details E tool result success =
     (if tool = PStr ''read_file'' \<and> success then
        and_then (py_get result ''content'' (PStr [])) (\<lambda>content.
          Inr (''- Content: '' @ py_str E content @ ''\<newline>''))
      else if tool = PStr ''grep_search'' \<and> success then
        and_then (py_get result ''matches'' (PList [])) (\<lambda>matches.
        and_then (py_len matches) (\<lambda>n.
        and_then (py_iter matches) (\<lambda>items.
        and_then (concat_each (format_match E) (zip [0..<length items] items)) (\<lambda>lines.
          Inr (''- Matches: '' @ str_nat n @ ''\<newline>'' @ lines)))))
      else if tool = PStr ''edit_file'' \<and> success then
        and_then (py_get result ''operations'' (PInt 0)) (\<lambda>operations.
        and_then (py_get result ''reasoning'' (PStr [])) (\<lambda>reasoning.
          Inr (''- Operations: '' @ py_str E operations @ ''\<newline>''
                 @ (if truthy reasoning then ''- Reasoning: '' @ py_str E reasoning @ ''\<newline>''
                    else []))))
      else if tool = PStr ''list_dir'' \<and> success then
        and_then (py_get result ''tree_visualization'' (PStr [])) (\<lambda>tree_visualization.
          Inr (''- Directory structure:\<newline>'' @ format_tree tree_visualization))
      else Inr [])"

text \<open>One parameter line.\<close>

definition format_param :: "'fs env \<Rightarrow> pyval \<times> pyval \<Rightarrow> error + string" where
  "format_param E kv =
     (case kv of (k, v) \<Rightarrow> Inr (''  - '' @ py_str E k @ '': '' @ py_str E v @ ''\<newline>''))"

text \<open>The body of the loop of \<open>format_history_summary\<close> for entry \<open>i\<close> of \<open>n\<close>.\<close>

definition format_action :: "'fs env \<Rightarrow> nat \<Rightarrow> nat \<times> pyval \<Rightarrow> error + string" where
  "format_action E n ia =
     (case ia of (i, action) \<Rightarrow>
        and_then (py_getitem action ''tool'') (\<lambda>tool.
        and_then (py_getitem action ''reason'') (\<lambda>reason.
        and_then (py_get action ''params'' (PDict [])) (\<lambda>params.
        and_then (if truthy params
                  then and_then (py_items params) (\<lambda>items.
                       and_then (concat_each (format_param E) items) (\<lambda>lines.
                         Inr (''- Parameters:\<newline>'' @ lines)))
                  else Inr []) (\<lambda>params_str.
        and_then (py_get action ''result'' PNone) (\<lambda>result.
        and_then (if truthy result then
                    (case result of
                       PDict d \<Rightarrow>
                         and_then (py_get result ''success'' (PBool False)) (\<lambda>success.
                         and_then (format_result_details E tool result (truthy success)) (\<lambda>details.
                           Inr (''- Result: '' @ (if truthy success then ''Success'' else ''Failed'')
                                  @ ''\<newline>'' @ details)))
                     | _ \<Rightarrow> Inr (''- Result: '' @ py_str E result @ ''\<newline>''))
                  else Inr []) (\<lambda>result_str.
          Inr (''Action '' @ str_nat (i + 1) @ '':\<newline>''
                 @ ''- Tool: '' @ py_str E tool @ ''\<newline>''
                 @ ''- Reason: '' @ py_str E reason @ ''\<newline>''
                 @ params_str @ result_str
                 @ (if i + 1 < n then ''\<newline>'' else [])))))))))"

definition format_history_summary :: "'fs env \<Rightarrow> pyval list \<Rightarrow> error + string" where
  "format_history_summary E history =
     (if history = [] then Inr ''No previous actions.''
      else and_then (concat_each (format_action E (length history))
                       (zip [0..<length history] history))
             (\<lambda>body. Inr (''\<newline>'' @ body)))"

section \<open>Session state\<close>

text \<open>
  The shared dictionary that every node reads and writes. A key that the code reads
  with a default and never removes is a plain field holding the default when the key
  is absent; a key that the code removes, or that starts as \<open>None\<close>, is an option.
  Field \<open>sh_k\<close> is the entry of key \<open>k\<close>.
\<close>

record shared =
  sh_user_query :: string
  sh_working_dir :: string
  sh_history :: "pyval list"
  sh_response :: "string option"
  sh_iteration_count :: "int option"
  sh_max_iterations :: "int option"
  sh_edit_operations :: "pyval option"
  sh_edit_reasoning :: "pyval option"

text \<open>\<open>os.path.join(working_dir, path)\<close> on a POSIX system.\<close>

definition os_path_join :: "string \<Rightarrow> pyval \<Rightarrow> error + pyval" where
  "os_path_join a b =
     (case b of
        PStr p \<Rightarrow>
          Inr (PStr (if p \<noteq> [] \<and> hd p = CHR ''/'' then p
                     else if a = [] \<or> last a = CHR ''/'' then a @ p
                     else a @ ''/'' @ p))
      | _ \<Rightarrow>
          Inl (TypeError (''join() argument must be str, bytes, or os.PathLike object, not ''
                 @ [CHR 0x27] @ type_name b @ [CHR 0x27])))"

text \<open>\<open>os.path.join(working_dir, path) if working_dir else path\<close>.\<close>

definition full_path_of :: "shared \<Rightarrow> pyval \<Rightarrow> error + pyval" where
  "full_path_of sh path =
     (if sh_working_dir sh \<noteq> [] then os_path_join (sh_working_dir sh) path else Inr path)"

text \<open>The opening of every handler's \<open>prep\<close>: the newest history entry.\<close>

definition last_action_of :: "shared \<Rightarrow> error + pyval" where
  "last_action_of sh =
     (if sh_history sh = [] then Inl (ValueError ''No history found'')
      else Inr (last (sh_history sh)))"

text \<open>\<open>if history: history[-1][key] = value\<close>.\<close>

definition set_last_field :: "shared \<Rightarrow> string \<Rightarrow> pyval \<Rightarrow> error + shared" where
  "set_last_field sh key val =
     (if sh_history sh = [] then Inr sh
      else and_then (py_setitem (last (sh_history sh)) key val) (\<lambda>entry.
             Inr (sh\<lparr>sh_history := butlast (sh_history sh) @ [entry]\<rparr>)))"

text \<open>The result dictionary of the handlers that report a flag and a message.\<close>

definition message_result :: "bool \<times> string \<Rightarrow> pyval" where
  "message_result r =
     (case r of (success, message) \<Rightarrow>
        PDict [(PStr ''success'', PBool success), (PStr ''message'', PStr message)])"

section \<open>Main decision agent\<close>

text \<open>The prompt of \<open>MainDecisionAgent.exec\<close>, with the request and the rendered history filled in.\<close>

definition decision_prompt :: "string \<Rightarrow> string \<Rightarrow> string" where
  \<open>decision_prompt user_query history_str =
       ''You are a coding assistant that helps modify and navigate code. You have full access to codebase. Given the following request, \<newline>''
       @ ''decide which tool to use from the available options.\<newline>\<newline>User request: ''
       @ user_query
       @ ''\<newline>\<newline>Here are the actions you performed:\<newline>''
       @ history_str
       @ ''\<newline>\<newline>Available tools:\<newline>1. read_file: Read content from a file\<newline>''
       @ ''   - Parameters: target_file (path)\<newline>   - Example:\<newline>''
       @ ''     tool: read_file\<newline>''
       @ ''     reason: I need to read the main.py file to understand its structure\<newline>''
       @ ''     params:\<newline>       target_file: main.py\<newline>\<newline>''
       @ ''2. edit_file: Make changes to a file\<newline>''
       @ ''   - Parameters: target_file (path), instructions, code_edit\<newline>''
       @ ''   - Code_edit_instructions:\<newline>''
       @ ''       - The code changes with context, following these rules:\<newline>''
       @ ''       - Use "// ... existing code ..." to represent unchanged code between edits\<newline>''
       @ ''       - Include sufficient context around the changes to resolve ambiguity\<newline>''
       @ ''       - Minimize repeating unchanged code\<newline>''
       @ ''       - Never omit code without using the "// ... existing code ..." marker\<newline>''
       @ ''       - No need to specify line numbers - the context helps locate the changes\<newline>''
       @ ''   - Example:\<newline>     tool: edit_file\<newline>''
       @ ''     reason: I need to add error handling to the file reading function\<newline>''
       @ ''     params:\<newline>       target_file: utils/read_file.py\<newline>''
       @ ''       instructions: Add try-except block around the file reading operation\<newline>''
       @ ''       code_edit: |\<newline>            // ... existing file reading code ...\<newline>''
       @ ''            function newEdit() {\<newline>                // new code here\<newline>''
       @ ''            }\<newline>            // ... existing file reading code ...\<newline>\<newline>''
       @ ''3. delete_file: Remove a file\<newline>   - Parameters: target_file (path)\<newline>''
       @ ''   - Example:\<newline>     tool: delete_file\<newline>''
       @ ''     reason: The temporary file is no longer needed\<newline>     params:\<newline>''
       @ ''       target_file: temp.txt\<newline>       \<newline>''
       @ ''4. insert_file: Create a new file\<newline>   - Parameters: \<newline>''
       @ ''     - target_file (path)\<newline>''
       @ ''     - content (string, required) - The content to write to the file\<newline>''
       @ ''   - Example:\<newline>     tool: insert_file\<newline>''
       @ ''     reason: Create a new file with initial content\<newline>     params:\<newline>''
       @ ''       target_file: new_file.txt\<newline>       content: |\<newline>''
       @ ''         This is the content\<newline>         of the new file\<newline>''
       @ ''         with multiple lines\<newline>         using YAML pipe operator (|)\<newline>\<newline>''
       @ ''5. grep_search: Search for patterns in files\<newline>''
       @ ''   - Parameters: query, case_sensitive (optional), include_pattern (optional), exclude_pattern (optional)\<newline>''
       @ ''   - Example:\<newline>     tool: grep_search\<newline>''
       @ ''     reason: I need to find all occurrences of \'logger\' in Python files\<newline>''
       @ ''     params:\<newline>       query: logger\<newline>       include_pattern: "*.py"\<newline>''
       @ ''       case_sensitive: false\<newline>\<newline>''
       @ ''6. list_dir: List contents of a directory\<newline>''
       @ ''   - Parameters: relative_workspace_path\<newline>   - Example:\<newline>''
       @ ''     tool: list_dir\<newline>''
       @ ''     reason: I need to see all files in the utils directory\<newline>''
       @ ''     params:\<newline>       relative_workspace_path: utils\<newline>''
       @ ''   - Result: Returns a tree visualization of the directory structure\<newline>\<newline>''
       @ ''7. create_directory: Create a new directory\<newline>''
       @ ''   - Parameters: target_dir (path)\<newline>   - Example:\<newline>''
       @ ''     tool: create_directory\<newline>''
       @ ''     reason: I need to create a directory for storing configuration files\<newline>''
       @ ''     params:\<newline>       target_dir: config\<newline>\<newline>''
       @ ''8. delete_directory: Remove a directory and all its contents\<newline>''
       @ ''   - Parameters: target_dir (path)\<newline>   - Example:\<newline>''
       @ ''     tool: delete_directory\<newline>''
       @ ''     reason: I need to remove the temporary build directory and all its contents\<newline>''
       @ ''     params:\<newline>       target_dir: build\<newline>\<newline>''
       @ ''9. finish: End the process and provide final response\<newline>''
       @ ''   - No parameters required\<newline>   - Example:\<newline>     tool: finish\<newline>''
       @ ''     reason: I have completed the requested task of finding all logger instances\<newline>''
       @ ''     params: {}\<newline>\<newline>Return a YAML object with the following structure:\<newline>''
       @ ''```yaml\<newline>tool: <tool_name>\<newline>''
       @ ''reason: <explanation of why this tool was chosen>\<newline>params:\<newline>''
       @ ''  <tool specific parameters>\<newline>```\<newline>\<newline>''
       @ ''Choose the most appropriate tool based on the user\'s request and previous actions.\<newline>''\<close>

text \<open>
  \<open>MainDecisionAgent.prep\<close>: count the iteration; past the limit the request handed to
  \<open>exec\<close> is the word \<open>finish\<close>.
\<close>

definition MainDecisionAgent_prep :: "shared \<Rightarrow> shared \<times> (string \<times> pyval list)" where
  "MainDecisionAgent_prep sh =
     (let iteration_count = (case sh_iteration_count sh of None \<Rightarrow> 0 | Some c \<Rightarrow> c) + 1;
          sh' = sh\<lparr>sh_iteration_count := Some iteration_count\<rparr>;
          max_iterations = (case sh_max_iterations sh of None \<Rightarrow> 10 | Some m \<Rightarrow> m)
      in if iteration_count > max_iterations then (sh', (''finish'', sh_history sh))
         else (sh', (sh_user_query sh, sh_history sh)))"

text \<open>
  \<open>MainDecisionAgent.exec\<close>: render the history, ask the backend, parse its reply.
  The call is logged in the world.
\<close>

definition MainDecisionAgent_exec ::
  "'fs env \<Rightarrow> 'fs world \<Rightarrow> string \<times> pyval list \<Rightarrow> error + (pyval \<times> 'fs world)" where
  "MainDecisionAgent_exec E w inputs =
     (case inputs of (user_query, history) \<Rightarrow>
        and_then (format_history_summary E history) (\<lambda>history_str.
          let prompt = decision_prompt user_query history_str;
              w' = w\<lparr>calls := calls w @ [Call_llm prompt]\<rparr>
          in and_then (call_llm E (calls w) prompt) (\<lambda>response.
               Inr (decision_of_response E response, w'))))"

text \<open>\<open>MainDecisionAgent.post\<close>: append the decision, return its tool as the action.\<close>

definition MainDecisionAgent_post :: "shared \<Rightarrow> pyval \<Rightarrow> error + (shared \<times> pyval)" where
  "MainDecisionAgent_post sh exec_res =
     (let sh' = sh\<lparr>sh_history := sh_history sh @ [exec_res]\<rparr>
      in and_then (py_getitem exec_res ''tool'') (\<lambda>tool. Inr (sh', tool)))"

text \<open>
  A node runs \<open>prep\<close>, then \<open>exec\<close> (once: the nodes keep the default of one attempt),
  then \<open>post\<close>; the value of \<open>post\<close> is the action that selects the next node.
\<close>

definition MainDecisionAgent_run ::
  "'fs env \<Rightarrow> shared \<times> 'fs world \<Rightarrow> error + ((shared \<times> 'fs world) \<times> pyval)" where
  "MainDecisionAgent_run E st =
     (case st of (sh, w) \<Rightarrow>
        case MainDecisionAgent_prep sh of (sh1, inputs) \<Rightarrow>
          and_then (MainDecisionAgent_exec E w inputs) (\<lambda>(exec_res, w').
          and_then (MainDecisionAgent_post sh1 exec_res) (\<lambda>(sh2, action).
            Inr ((sh2, w'), action))))"

section \<open>Action handlers\<close>

subsection \<open>Read file\<close>

definition ReadFileAction_prep :: "shared \<Rightarrow> error + pyval" where
  "ReadFileAction_prep sh =
     and_then (last_action_of sh) (\<lambda>last_action.
     and_then (py_getitem last_action ''params'') (\<lambda>params.
     and_then (py_get params ''target_file'' PNone) (\<lambda>file_path.
       if \<not> truthy file_path then Inl (ValueError ''Missing target_file parameter'')
       else and_then (full_path_of sh file_path) (\<lambda>full_path.
            and_then (py_get last_action ''reason'' (PStr ''No reason provided'')) (\<lambda>reason.
              Inr full_path)))))"

definition ReadFileAction_exec :: "'fs env \<Rightarrow> 'fs world \<Rightarrow> pyval \<Rightarrow> (string \<times> bool) \<times> 'fs world" where
  "ReadFileAction_exec E w file_path =
     (read_file E file_path (fs w), w\<lparr>calls := calls w @ [Call_read_file file_path]\<rparr>)"

definition ReadFileAction_post :: "shared \<Rightarrow> string \<times> bool \<Rightarrow> error + (shared \<times> pyval)" where
  "ReadFileAction_post sh exec_res =
     (case exec_res of (content, success) \<Rightarrow>
        and_then (set_last_field sh ''result''
                    (PDict [(PStr ''success'', PBool success), (PStr ''content'', PStr content)]))
          (\<lambda>sh'. Inr (sh', PNone)))"

definition ReadFileAction_run ::
  "'fs env \<Rightarrow> shared \<times> 'fs world \<Rightarrow> error + ((shared \<times> 'fs world) \<times> pyval)" where
  "ReadFileAction_run E st =
     (case st of (sh, w) \<Rightarrow>
        and_then (ReadFileAction_prep sh) (\<lambda>prep_res.
          case ReadFileAction_exec E w prep_res of (exec_res, w') \<Rightarrow>
            and_then (ReadFileAction_post sh exec_res) (\<lambda>(sh', action).
              Inr ((sh', w'), action))))"

subsection \<open>Grep search\<close>

definition GrepSearchAction_prep ::
  "shared \<Rightarrow> error + (pyval \<times> pyval \<times> pyval \<times> pyval \<times> string)" where
  "GrepSearchAction_prep sh =
     and_then (last_action_of sh) (\<lambda>last_action.
     and_then (py_getitem last_action ''params'') (\<lambda>params.
     and_then (py_contains ''query'' params) (\<lambda>has_query.
       if \<not> has_query then Inl (ValueError ''Missing query parameter'')
       else and_then (py_get last_action ''reason'' (PStr ''No reason provided'')) (\<lambda>reason.
            and_then (py_getitem params ''query'') (\<lambda>query.
            and_then (py_get params ''case_sensitive'' (PBool False)) (\<lambda>case_sensitive.
            and_then (py_get params ''include_pattern'' PNone) (\<lambda>include_pattern.
            and_then (py_get params ''exclude_pattern'' PNone) (\<lambda>exclude_pattern.
              Inr (query, case_sensitive, include_pattern, exclude_pattern,
                   sh_working_dir sh)))))))))"

text \<open>\<open>GrepSearchAction.exec\<close> returns what the search primitive returns: the flag, then the matches.\<close>

definition GrepSearchAction_exec ::
  "'fs env \<Rightarrow> 'fs world \<Rightarrow> pyval \<times> pyval \<times> pyval \<times> pyval \<times> string
     \<Rightarrow> (bool \<times> pyval list) \<times> 'fs world" where
  "GrepSearchAction_exec E w params =
     (case params of (query, case_sensitive, include_pattern, exclude_pattern, working_dir) \<Rightarrow>
        (grep_search E query case_sensitive include_pattern exclude_pattern working_dir (fs w),
         w\<lparr>calls := calls w @ [Call_grep_search query case_sensitive include_pattern
                                  exclude_pattern working_dir]\<rparr>))"

text \<open>
  \<open>GrepSearchAction.post\<close> unpacks the pair as \<open>matches, success = exec_res\<close>: the name
  \<open>matches\<close> receives the first component and \<open>success\<close> the second.
\<close>

definition GrepSearchAction_post :: "shared \<Rightarrow> bool \<times> pyval list \<Rightarrow> error + (shared \<times> pyval)" where
  "GrepSearchAction_post sh exec_res =
     (let matches = PBool (fst exec_res);
          success = PList (snd exec_res)
      in and_then (set_last_field sh ''result''
                     (PDict [(PStr ''success'', success), (PStr ''matches'', matches)]))
           (\<lambda>sh'. Inr (sh', PNone)))"

definition GrepSearchAction_run ::
  "'fs env \<Rightarrow> shared \<times> 'fs world \<Rightarrow> error + ((shared \<times> 'fs world) \<times> pyval)" where
  "GrepSearchAction_run E st =
     (case st of (sh, w) \<Rightarrow>
        and_then (GrepSearchAction_prep sh) (\<lambda>prep_res.
          case GrepSearchAction_exec E w prep_res of (exec_res, w') \<Rightarrow>
            and_then (GrepSearchAction_post sh exec_res) (\<lambda>(sh', action).
              Inr ((sh', w'), action))))"

subsection \<open>List directory\<close>

definition ListDirAction_prep :: "shared \<Rightarrow> error + pyval" where
  "ListDirAction_prep sh =
     and_then (last_action_of sh) (\<lambda>last_action.
     and_then (py_getitem last_action ''params'') (\<lambda>params.
     and_then (py_get params ''relative_workspace_path'' (PStr ''.'')) (\<lambda>path.
     and_then (py_get last_action ''reason'' (PStr ''No reason provided'')) (\<lambda>reason.
       full_path_of sh path))))"

definition ListDirAction_exec :: "'fs env \<Rightarrow> 'fs world \<Rightarrow> pyval \<Rightarrow> (bool \<times> string) \<times> 'fs world" where
  "ListDirAction_exec E w path =
     (list_dir E path (fs w), w\<lparr>calls := calls w @ [Call_list_dir path]\<rparr>)"

definition ListDirAction_post :: "shared \<Rightarrow> bool \<times> string \<Rightarrow> error + (shared \<times> pyval)" where
  "ListDirAction_post sh exec_res =
     (case exec_res of (success, tree_str) \<Rightarrow>
        and_then (set_last_field sh ''result''
                    (PDict [(PStr ''success'', PBool success),
                            (PStr ''tree_visualization'', PStr tree_str)]))
          (\<lambda>sh'. Inr (sh', PNone)))"

definition ListDirAction_run ::
  "'fs env \<Rightarrow> shared \<times> 'fs world \<Rightarrow> error + ((shared \<times> 'fs world) \<times> pyval)" where
  "ListDirAction_run E st =
     (case st of (sh, w) \<Rightarrow>
        and_then (ListDirAction_prep sh) (\<lambda>prep_res.
          case ListDirAction_exec E w prep_res of (exec_res, w') \<Rightarrow>
            and_then (ListDirAction_post sh exec_res) (\<lambda>(sh', action).
              Inr ((sh', w'), action))))"

subsection \<open>Insert file\<close>

definition InsertFileAction_prep :: "shared \<Rightarrow> error + (pyval \<times> pyval)" where
  "InsertFileAction_prep sh =
     and_then (last_action_of sh) (\<lambda>last_action.
     and_then (py_getitem last_action ''params'') (\<lambda>params.
     and_then (py_get params ''target_file'' PNone) (\<lambda>file_path.
     and_then (py_getitem last_action ''params'') (\<lambda>params.
     and_then (py_get params ''content'' PNone) (\<lambda>content.
       if \<not> truthy file_path then Inl (ValueError ''Missing target_file parameter'')
       else if \<not> truthy content then Inl (ValueError ''Missing content parameter'')
       else and_then (py_get last_action ''reason'' (PStr ''No reason provided'')) (\<lambda>reason.
            and_then (full_path_of sh file_path) (\<lambda>full_path.
              Inr (full_path, content))))))))"

definition InsertFileAction_exec ::
  "'fs env \<Rightarrow> 'fs world \<Rightarrow> pyval \<times> pyval \<Rightarrow> (bool \<times> string) \<times> 'fs world" where
  "InsertFileAction_exec E w params =
     (case params of (file_path, content) \<Rightarrow>
        case insert_file E file_path content (fs w) of (r, fs') \<Rightarrow>
          (r, w\<lparr>fs := fs', calls := calls w @ [Call_insert_file file_path content]\<rparr>))"

definition InsertFileAction_post :: "shared \<Rightarrow> bool \<times> string \<Rightarrow> error + (shared \<times> pyval)" where
  "InsertFileAction_post sh exec_res =
     and_then (set_last_field sh ''result'' (message_result exec_res))
       (\<lambda>sh'. Inr (sh', PStr ''default''))"

definition InsertFileAction_run ::
  "'fs env \<Rightarrow> shared \<times> 'fs world \<Rightarrow> error + ((shared \<times> 'fs world) \<times> pyval)" where
  "InsertFileAction_run E st =
     (case st of (sh, w) \<Rightarrow>
        and_then (InsertFileAction_prep sh) (\<lambda>prep_res.
          case InsertFileAction_exec E w prep_res of (exec_res, w') \<Rightarrow>
            and_then (InsertFileAction_post sh exec_res) (\<lambda>(sh', action).
              Inr ((sh', w'), action))))"

subsection \<open>Delete file\<close>

definition DeleteFileAction_prep :: "shared \<Rightarrow> error + pyval" where
  "DeleteFileAction_prep sh =
     and_then (last_action_of sh) (\<lambda>last_action.
     and_then (py_getitem last_action ''params'') (\<lambda>params.
     and_then (py_get params ''target_file'' PNone) (\<lambda>file_path.
       if \<not> truthy file_path then Inl (ValueError ''Missing target_file parameter'')
       else and_then (py_get last_action ''reason'' (PStr ''No reason provided'')) (\<lambda>reason.
              full_path_of sh file_path))))"

definition DeleteFileAction_exec ::
  "'fs env \<Rightarrow> 'fs world \<Rightarrow> pyval \<Rightarrow> (bool \<times> string) \<times> 'fs world" where
  "DeleteFileAction_exec E w file_path =
     (case delete_file E file_path (fs w) of (r, fs') \<Rightarrow>
        (r, w\<lparr>fs := fs', calls := calls w @ [Call_delete_file file_path]\<rparr>))"

definition DeleteFileAction_post :: "shared \<Rightarrow> bool \<times> string \<Rightarrow> error + (shared \<times> pyval)" where
  "DeleteFileAction_post sh exec_res =
     and_then (set_last_field sh ''result'' (message_result exec_res))
       (\<lambda>sh'. Inr (sh', PNone))"

definition DeleteFileAction_run ::
  "'fs env \<Rightarrow> shared \<times> 'fs world \<Rightarrow> error + ((shared \<times> 'fs world) \<times> pyval)" where
  "DeleteFileAction_run E st =
     (case st of (sh, w) \<Rightarrow>
        and_then (DeleteFileAction_prep sh) (\<lambda>prep_res.
          case DeleteFileAction_exec E w prep_res of (exec_res, w') \<Rightarrow>
            and_then (DeleteFileAction_post sh exec_res) (\<lambda>(sh', action).
              Inr ((sh', w'), action))))"

subsection \<open>Create and delete a directory\<close>

text \<open>The \<open>prep\<close> of both directory handlers.\<close>

definition directory_prep :: "shared \<Rightarrow> error + pyval" where
  "directory_prep sh =
     and_then (last_action_of sh) (\<lambda>last_action.
     and_then (py_getitem last_action ''params'') (\<lambda>params.
     and_then (py_get params ''target_dir'' PNone) (\<lambda>dir_path.
       if \<not> truthy dir_path then Inl (ValueError ''Missing target_dir parameter'')
       else and_then (py_get last_action ''reason'' (PStr ''No reason provided'')) (\<lambda>reason.
              full_path_of sh dir_path))))"

definition CreateDirectoryAction_prep :: "shared \<Rightarrow> error + pyval" where
  "CreateDirectoryAction_prep sh = directory_prep sh"

definition CreateDirectoryAction_exec ::
  "'fs env \<Rightarrow> 'fs world \<Rightarrow> pyval \<Rightarrow> (bool \<times> string) \<times> 'fs world" where
  "CreateDirectoryAction_exec E w dir_path =
     (case makedirs E dir_path (fs w) of (r, fs') \<Rightarrow>
        ((case r of
            Inr u \<Rightarrow> (True, ''Successfully created directory: '' @ py_str E dir_path)
          | Inl e \<Rightarrow> (False, ''Failed to create directory: '' @ str_error e)),
         w\<lparr>fs := fs', calls := calls w @ [Call_makedirs dir_path]\<rparr>))"

definition CreateDirectoryAction_post :: "shared \<Rightarrow> bool \<times> string \<Rightarrow> error + (shared \<times> pyval)" where
  "CreateDirectoryAction_post sh exec_res =
     and_then (set_last_field sh ''result'' (message_result exec_res))
       (\<lambda>sh'. Inr (sh', PStr ''default''))"

definition CreateDirectoryAction_run ::
  "'fs env \<Rightarrow> shared \<times> 'fs world \<Rightarrow> error + ((shared \<times> 'fs world) \<times> pyval)" where
  "CreateDirectoryAction_run E st =
     (case st of (sh, w) \<Rightarrow>
        and_then (CreateDirectoryAction_prep sh) (\<lambda>prep_res.
          case CreateDirectoryAction_exec E w prep_res of (exec_res, w') \<Rightarrow>
            and_then (CreateDirectoryAction_post sh exec_res) (\<lambda>(sh', action).
              Inr ((sh', w'), action))))"

definition DeleteDirectoryAction_prep :: "shared \<Rightarrow> error + pyval" where
  "DeleteDirectoryAction_prep sh = directory_prep sh"

definition DeleteDirectoryAction_exec ::
  "'fs env \<Rightarrow> 'fs world \<Rightarrow> pyval \<Rightarrow> (bool \<times> string) \<times> 'fs world" where
  "DeleteDirectoryAction_exec E w dir_path =
     (if \<not> path_exists E dir_path (fs w)
      then ((False, ''Directory does not exist: '' @ py_str E dir_path), w)
      else if \<not> path_isdir E dir_path (fs w)
      then ((False, ''Path is not a directory: '' @ py_str E dir_path), w)
      else case rmtree E dir_path (fs w) of (r, fs') \<Rightarrow>
        ((case r of
            Inr u \<Rightarrow> (True, ''Successfully deleted directory and its contents: ''
                           @ py_str E dir_path)
          | Inl e \<Rightarrow> (False, ''Failed to delete directory: '' @ str_error e)),
         w\<lparr>fs := fs', calls := calls w @ [Call_rmtree dir_path]\<rparr>))"

definition DeleteDirectoryAction_post :: "shared \<Rightarrow> bool \<times> string \<Rightarrow> error + (shared \<times> pyval)" where
  "DeleteDirectoryAction_post sh exec_res =
     and_then (set_last_field sh ''result'' (message_result exec_res))
       (\<lambda>sh'. Inr (sh', PStr ''default''))"

definition DeleteDirectoryAction_run ::
  "'fs env \<Rightarrow> shared \<times> 'fs world \<Rightarrow> error + ((shared \<times> 'fs world) \<times> pyval)" where
  "DeleteDirectoryAction_run E st =
     (case st of (sh, w) \<Rightarrow>
        and_then (DeleteDirectoryAction_prep sh) (\<lambda>prep_res.
          case DeleteDirectoryAction_exec E w prep_res of (exec_res, w') \<Rightarrow>
            and_then (DeleteDirectoryAction_post sh exec_res) (\<lambda>(sh', action).
              Inr ((sh', w'), action))))"

section \<open>Edit agent\<close>

subsection \<open>Read the target file\<close>

definition ReadTargetFileNode_prep :: "shared \<Rightarrow> error + pyval" where
  "ReadTargetFileNode_prep sh =
     and_then (last_action_of sh) (\<lambda>last_action.
     and_then (py_getitem last_action ''params'') (\<lambda>params.
     and_then (py_get params ''target_file'' PNone) (\<lambda>file_path.
       if \<not> truthy file_path then Inl (ValueError ''Missing target_file parameter'')
       else full_path_of sh file_path)))"

definition ReadTargetFileNode_exec ::
  "'fs env \<Rightarrow> 'fs world \<Rightarrow> pyval \<Rightarrow> (string \<times> bool) \<times> 'fs world" where
  "ReadTargetFileNode_exec E w file_path =
     (read_file E file_path (fs w), w\<lparr>calls := calls w @ [Call_read_file file_path]\<rparr>)"

text \<open>\<open>ReadTargetFileNode.post\<close> keeps the content and drops the success flag.\<close>

definition ReadTargetFileNode_post :: "shared \<Rightarrow> string \<times> bool \<Rightarrow> error + (shared \<times> pyval)" where
  "ReadTargetFileNode_post sh exec_res =
     (case exec_res of (content, success) \<Rightarrow>
        and_then (set_last_field sh ''file_content'' (PStr content))
          (\<lambda>sh'. Inr (sh', PNone)))"

definition ReadTargetFileNode_run ::
  "'fs env \<Rightarrow> shared \<times> 'fs world \<Rightarrow> error + ((shared \<times> 'fs world) \<times> pyval)" where
  "ReadTargetFileNode_run E st =
     (case st of (sh, w) \<Rightarrow>
        and_then (ReadTargetFileNode_prep sh) (\<lambda>prep_res.
          case ReadTargetFileNode_exec E w prep_res of (exec_res, w') \<Rightarrow>
            and_then (ReadTargetFileNode_post sh exec_res) (\<lambda>(sh', action).
              Inr ((sh', w'), action))))"

subsection \<open>Patch Planner\<close>

definition AnalyzeAndPlanNode_prep :: "shared \<Rightarrow> error + (pyval \<times> pyval \<times> pyval)" where
  "AnalyzeAndPlanNode_prep sh =
     and_then (last_action_of sh) (\<lambda>last_action.
     and_then (py_get last_action ''file_content'' PNone) (\<lambda>file_content.
     and_then (py_getitem last_action ''params'') (\<lambda>params.
     and_then (py_get params ''instructions'' PNone) (\<lambda>instructions.
     and_then (py_getitem last_action ''params'') (\<lambda>params.
     and_then (py_get params ''code_edit'' PNone) (\<lambda>code_edit.
       if \<not> truthy file_content then Inl (ValueError ''File content not found'')
       else if \<not> truthy instructions then Inl (ValueError ''Missing instructions parameter'')
       else if \<not> truthy code_edit then Inl (ValueError ''Missing code_edit parameter'')
       else Inr (file_content, instructions, code_edit)))))))"

text \<open>The prompt of \<open>AnalyzeAndPlanNode.exec\<close>.\<close>

definition plan_prompt :: "string \<Rightarrow> string \<Rightarrow> string \<Rightarrow> string \<Rightarrow> string" where
  \<open>plan_prompt total_lines file_content instructions code_edit =
       ''\<newline>''
       @ ''You are a code editing assistant. Your task is to analyze code changes and convert them into specific edit operations.\<newline>''
       @ ''\<newline>''
       @ ''IMPORTANT: You MUST return a YAML object with EXACTLY this structure:\<newline>''
       @ ''```yaml\<newline>reasoning: |\<newline>''
       @ ''  Your detailed explanation of how you interpreted the edit pattern\<newline>''
       @ ''  and why you chose specific line numbers for the changes.\<newline>\<newline>''
       @ ''operations:\<newline>''
       @ ''  - start_line: <number>  # REQUIRED: 1-indexed line number where edit starts\<newline>''
       @ ''    end_line: <number>    # REQUIRED: 1-indexed line number where edit ends\<newline>''
       @ ''    replacement: |        # REQUIRED: The new code to insert\<newline>''
       @ ''      <new code here>\<newline>```\<newline>\<newline>RULES:\<newline>''
       @ ''1. The YAML structure MUST include both "reasoning" and "operations" fields\<newline>''
       @ ''2. Each operation MUST have start_line, end_line, and replacement\<newline>''
       @ ''3. Line numbers are 1-indexed and inclusive\<newline>''
       @ ''4. For appending content, use total_lines + 1 as both start_line and end_line\<newline>''
       @ ''5. Do not include "// ... existing code ..." in replacements\<newline>''
       @ ''6. Validate that all line numbers are within file bounds (1 to ''
       @ total_lines
       @ '')\<newline>\<newline>FILE CONTENT:\<newline>''
       @ file_content
       @ ''\<newline>\<newline>EDIT INSTRUCTIONS: \<newline>''
       @ instructions
       @ ''\<newline>\<newline>CODE EDIT PATTERN:\<newline>''
       @ code_edit
       @ ''\<newline>\<newline>''
       @ ''Now, analyze the file content and edit pattern to determine the exact line numbers and replacement text.\<newline>''
       @ ''Return ONLY the YAML object with your analysis and operations.\<newline>''\<close>

text \<open>A word in single quotes.\<close>

definition quoted :: "string \<Rightarrow> string" where
  "quoted s = [CHR 0x27] @ s @ [CHR 0x27]"

text \<open>\<open>isinstance(v, int)\<close>: a boolean is an integer too, with value 0 or 1.\<close>

fun is_int :: "pyval \<Rightarrow> bool" where
  "is_int (PInt i) = True"
| "is_int (PBool b) = True"
| "is_int v = False"

fun int_of :: "pyval \<Rightarrow> int" where
  "int_of (PInt i) = i"
| "int_of (PBool b) = (if b then 1 else 0)"
| "int_of v = 0"

fun is_str :: "pyval \<Rightarrow> bool" where
  "is_str (PStr s) = True"
| "is_str v = False"

text \<open>
  The body of the validation loop of \<open>AnalyzeAndPlanNode.exec\<close> for the operation at
  index \<open>i\<close> (counted from 0) of a file of \<open>total_lines\<close> lines.
\<close>

definition check_operation :: "'fs env \<Rightarrow> int \<Rightarrow> nat \<Rightarrow> pyval \<Rightarrow> error + unit" where
  \<open>check_operation E total_lines i op =
     (case op of
        PDict d \<Rightarrow>
          (case map_of d (PStr ''start_line'') of
             None \<Rightarrow> Inl (ValueError (''Operation '' @ str_nat (i + 1) @ '' missing '' @ quoted ''start_line''))
           | Some start_line \<Rightarrow>
          (case map_of d (PStr ''end_line'') of
             None \<Rightarrow> Inl (ValueError (''Operation '' @ str_nat (i + 1) @ '' missing '' @ quoted ''end_line''))
           | Some end_line \<Rightarrow>
          (case map_of d (PStr ''replacement'') of
             None \<Rightarrow> Inl (ValueError (''Operation '' @ str_nat (i + 1) @ '' missing '' @ quoted ''replacement''))
           | Some replacement \<Rightarrow>
             if \<not> is_int start_line then
               Inl (ValueError (''Operation '' @ str_nat (i + 1) @ '' '' @ quoted ''start_line'' @ '' must be an integer''))
             else if \<not> is_int end_line then
               Inl (ValueError (''Operation '' @ str_nat (i + 1) @ '' '' @ quoted ''end_line'' @ '' must be an integer''))
             else if \<not> is_str replacement then
               Inl (ValueError (''Operation '' @ str_nat (i + 1) @ '' '' @ quoted ''replacement'' @ '' must be a string''))
             else if \<not> (1 \<le> int_of start_line \<and> int_of start_line \<le> total_lines + 1) then
               Inl (ValueError (''Operation '' @ str_nat (i + 1) @ '' '' @ quoted ''start_line'' @ '' out of range: ''
                      @ py_str E start_line))
             else if \<not> (1 \<le> int_of end_line \<and> int_of end_line \<le> total_lines + 1) then
               Inl (ValueError (''Operation '' @ str_nat (i + 1) @ '' '' @ quoted ''end_line'' @ '' out of range: ''
                      @ py_str E end_line))
             else if int_of start_line > int_of end_line then
               Inl (ValueError (''Operation '' @ str_nat (i + 1) @ '' '' @ quoted ''start_line'' @ '' (''
                      @ py_str E start_line @ '') > '' @ quoted ''end_line'' @ '' ('' @ py_str E end_line @ '')''))
             else Inr ())))
      | _ \<Rightarrow> Inl (ValueError (''Operation '' @ str_nat (i + 1) @ '' must be a dictionary'')))\<close>

text \<open>The loop \<open>for i, op in enumerate(decision["operations"])\<close>, from index \<open>i\<close> on.\<close>

fun validate_operations :: "'fs env \<Rightarrow> int \<Rightarrow> nat \<Rightarrow> pyval list \<Rightarrow> error + unit" where
  "validate_operations E total_lines i [] = Inr ()"
| "validate_operations E total_lines i (op # ops) =
     and_then (check_operation E total_lines i op)
       (\<lambda>u. validate_operations E total_lines (Suc i) ops)"

text \<open>The checks of \<open>AnalyzeAndPlanNode.exec\<close> on the loaded plan.\<close>

definition validate_plan :: "'fs env \<Rightarrow> int \<Rightarrow> pyval \<Rightarrow> error + unit" where
  \<open>validate_plan E total_lines decision =
     (case decision of
        PDict d \<Rightarrow>
          if map_of d (PStr ''reasoning'') = None then
            Inl (ValueError (''Missing '' @ quoted ''reasoning'' @ '' field in LLM response''))
          else (case map_of d (PStr ''operations'') of
                  None \<Rightarrow> Inl (ValueError (''Missing '' @ quoted ''operations'' @ '' field in LLM response''))
                | Some (PList ops) \<Rightarrow>
                    if ops = [] then Inl (ValueError (quoted ''operations'' @ '' list cannot be empty''))
                    else validate_operations E total_lines 0 ops
                | Some other \<Rightarrow> Inl (ValueError (quoted ''operations'' @ '' field must be a list'')))
      | _ \<Rightarrow> Inl (ValueError ''LLM response must be a YAML object (dictionary)''))\<close>

text \<open>
  \<open>AnalyzeAndPlanNode.exec\<close>: count the lines, ask the backend, extract a fenced
  block (without the fall-back to the whole response), load and validate it. Only a
  YAML error of the loader is turned into a \<open>ValueError\<close>.
\<close>

definition AnalyzeAndPlanNode_exec ::
  "'fs env \<Rightarrow> 'fs world \<Rightarrow> pyval \<times> pyval \<times> pyval \<Rightarrow> error + (pyval \<times> 'fs world)" where
  \<open>AnalyzeAndPlanNode_exec E w params =
     (case params of (file_content, instructions, code_edit) \<Rightarrow>
        and_then (case file_content of
                    PStr s \<Rightarrow> Inr (py_split ''\<newline>'' s)
                  | _ \<Rightarrow> Inl (AttributeError ([CHR 0x27] @ type_name file_content @ [CHR 0x27]
                                   @ '' object has no attribute '' @ quoted ''split'')))
          (\<lambda>file_lines.
             let total_lines = int (length file_lines);
                 prompt = plan_prompt (str_int total_lines) (py_str E file_content)
                            (py_str E instructions) (py_str E code_edit);
                 w' = w\<lparr>calls := calls w @ [Call_llm prompt]\<rparr>
             in and_then (call_llm E (calls w) prompt) (\<lambda>response.
                  let yaml_content = extract_yaml_content response
                  in if yaml_content = [] then
                       Inl (ValueError (''No YAML object found in response. LLM must return a YAML ''
                              @ ''object with '' @ quoted ''reasoning'' @ '' and '' @ quoted ''operations'' @ '' fields.''))
                     else and_then (case safe_load E yaml_content of
                                      Inl (YAMLError m) \<Rightarrow>
                                        Inl (ValueError (''Invalid YAML format in LLM response: '' @ m))
                                    | Inl e \<Rightarrow> Inl e
                                    | Inr decision \<Rightarrow> Inr decision)
                            (\<lambda>decision.
                               and_then (validate_plan E total_lines decision)
                                 (\<lambda>u. Inr (decision, w'))))))\<close>

definition AnalyzeAndPlanNode_post :: "shared \<Rightarrow> pyval \<Rightarrow> error + (shared \<times> pyval)" where
  "AnalyzeAndPlanNode_post sh exec_res =
     and_then (py_get exec_res ''reasoning'' (PStr [])) (\<lambda>reasoning.
     and_then (py_get exec_res ''operations'' (PList [])) (\<lambda>operations.
       Inr (sh\<lparr>sh_edit_reasoning := Some reasoning, sh_edit_operations := Some operations\<rparr>,
            PNone)))"

definition AnalyzeAndPlanNode_run ::
  "'fs env \<Rightarrow> shared \<times> 'fs world \<Rightarrow> error + ((shared \<times> 'fs world) \<times> pyval)" where
  "AnalyzeAndPlanNode_run E st =
     (case st of (sh, w) \<Rightarrow>
        and_then (AnalyzeAndPlanNode_prep sh) (\<lambda>prep_res.
        and_then (AnalyzeAndPlanNode_exec E w prep_res) (\<lambda>(exec_res, w').
        and_then (AnalyzeAndPlanNode_post sh exec_res) (\<lambda>(sh', action).
          Inr ((sh', w'), action)))))"

subsection \<open>Patch Applier\<close>

text \<open>A list comprehension or loop whose body may raise.\<close>

fun map_err :: "('a \<Rightarrow> error + 'b) \<Rightarrow> 'a list \<Rightarrow> error + 'b list" where
  "map_err f [] = Inr []"
| "map_err f (x # xs) =
     and_then (f x) (\<lambda>y. and_then (map_err f xs) (\<lambda>ys. Inr (y # ys)))"

text \<open>
  The sort key \<open>op["start_line"]\<close>. Keys are compared as integers: the planner stores
  only operations whose \<open>start_line\<close> passed its integer check. A key of another type
  is reported as a \<open>TypeError\<close>.
\<close>

definition start_line_key :: "pyval \<Rightarrow> error + int" where
  "start_line_key op =
     and_then (py_getitem op ''start_line'') (\<lambda>v.
       if is_int v then Inr (int_of v)
       else Inl (TypeError (quoted ''<'' @ '' not supported between instances of ''
                   @ quoted (type_name v) @ '' and '' @ quoted (type_name v))))"

text \<open>
  \<open>sorted(edit_operations, key=lambda op: op["start_line"], reverse=True)\<close>: all keys
  are computed first; the sort is stable, so operations with equal keys keep their
  order.
\<close>

definition sorted_by_start_desc :: "pyval \<Rightarrow> error + pyval list" where
  "sorted_by_start_desc edit_operations =
     and_then (py_iter edit_operations) (\<lambda>items.
     and_then (map_err start_line_key items) (\<lambda>keys.
       Inr (map snd (sort_key (\<lambda>kop. - fst kop) (zip keys items)))))"

text \<open>
  \<open>ApplyChangesNode.prep\<close>. The path is written into the operation dictionaries
  themselves, which the stored plan shares, so the stored plan changes with them.
\<close>

definition ApplyChangesNode_prep :: "shared \<Rightarrow> error + (shared \<times> pyval list)" where
  "ApplyChangesNode_prep sh =
     (let edit_operations = (case sh_edit_operations sh of None \<Rightarrow> PList [] | Some v \<Rightarrow> v)
      in if \<not> truthy edit_operations then Inr (sh, [])
         else
           and_then (sorted_by_start_desc edit_operations) (\<lambda>sorted_ops.
           and_then (last_action_of sh) (\<lambda>last_action.
           and_then (py_getitem last_action ''params'') (\<lambda>params.
           and_then (py_get params ''target_file'' PNone) (\<lambda>target_file.
             if \<not> truthy target_file then Inl (ValueError ''Missing target_file parameter'')
             else
               and_then (full_path_of sh target_file) (\<lambda>full_path.
               and_then (map_err (\<lambda>op. py_setitem op ''target_file'' full_path) sorted_ops)
                 (\<lambda>tagged_sorted.
               and_then (py_iter edit_operations) (\<lambda>items.
               and_then (map_err (\<lambda>op. py_setitem op ''target_file'' full_path) items)
                 (\<lambda>tagged_items.
                  Inr (sh\<lparr>sh_edit_operations := Some (PList tagged_items)\<rparr>,
                       tagged_sorted))))))))))"

text \<open>\<open>ApplyChangesNode.exec\<close> for one operation.\<close>

definition ApplyChangesNode_exec ::
  "'fs env \<Rightarrow> 'fs world \<Rightarrow> pyval \<Rightarrow> error + ((bool \<times> string) \<times> 'fs world)" where
  "ApplyChangesNode_exec E w op =
     and_then (py_getitem op ''target_file'') (\<lambda>target_file.
     and_then (py_getitem op ''start_line'') (\<lambda>start_line.
     and_then (py_getitem op ''end_line'') (\<lambda>end_line.
     and_then (py_getitem op ''replacement'') (\<lambda>content.
       case replace_file E target_file start_line end_line content (fs w) of (r, fs') \<Rightarrow>
         Inr (r, w\<lparr>fs := fs',
                    calls := calls w @ [Call_replace_file target_file start_line end_line
                                          content]\<rparr>)))))"

text \<open>
  The batch node runs \<open>exec\<close> on the prepared items one after the other, in the order
  of the list, and collects the results.
\<close>

fun ApplyChangesNode_exec_all ::
  "'fs env \<Rightarrow> 'fs world \<Rightarrow> pyval list \<Rightarrow> error + ((bool \<times> string) list \<times> 'fs world)" where
  "ApplyChangesNode_exec_all E w [] = Inr ([], w)"
| "ApplyChangesNode_exec_all E w (op # ops) =
     and_then (ApplyChangesNode_exec E w op) (\<lambda>(r, w').
     and_then (ApplyChangesNode_exec_all E w' ops) (\<lambda>(rs, w'').
       Inr (r # rs, w'')))"

definition ApplyChangesNode_post ::
  "shared \<Rightarrow> (bool \<times> string) list \<Rightarrow> error + (shared \<times> pyval)" where
  "ApplyChangesNode_post sh exec_res_list =
     (let all_successful = list_all fst exec_res_list;
          result_details = map message_result exec_res_list
      in and_then (set_last_field sh ''result''
                     (PDict [(PStr ''success'', PBool all_successful),
                             (PStr ''operations'', PInt (int (length exec_res_list))),
                             (PStr ''details'', PList result_details),
                             (PStr ''reasoning'',
                              (case sh_edit_reasoning sh of None \<Rightarrow> PStr [] | Some v \<Rightarrow> v))]))
           (\<lambda>sh'. Inr (sh'\<lparr>sh_edit_operations := None, sh_edit_reasoning := None\<rparr>, PNone)))"

definition ApplyChangesNode_run ::
  "'fs env \<Rightarrow> shared \<times> 'fs world \<Rightarrow> error + ((shared \<times> 'fs world) \<times> pyval)" where
  "ApplyChangesNode_run E st =
     (case st of (sh, w) \<Rightarrow>
        and_then (ApplyChangesNode_prep sh) (\<lambda>(sh1, prep_res).
        and_then (ApplyChangesNode_exec_all E w prep_res) (\<lambda>(exec_res_list, w').
        and_then (ApplyChangesNode_post sh1 exec_res_list) (\<lambda>(sh2, action).
          Inr ((sh2, w'), action)))))"

subsection \<open>The edit agent as a flow\<close>

text \<open>
  \<open>create_edit_agent\<close> chains the three nodes by their default action; each of them
  returns no action, which selects the default successor. The inner flow hands the
  last action, \<open>None\<close>, to the outer one.
\<close>

definition EditAgent_run ::
  "'fs env \<Rightarrow> shared \<times> 'fs world \<Rightarrow> error + ((shared \<times> 'fs world) \<times> pyval)" where
  "EditAgent_run E st =
     and_then (ReadTargetFileNode_run E st) (\<lambda>(st1, a1).
     and_then (AnalyzeAndPlanNode_run E st1) (\<lambda>(st2, a2).
     and_then (ApplyChangesNode_run E st2) (\<lambda>(st3, a3).
       Inr (st3, a3))))"

section \<open>Final response\<close>

text \<open>The prompt of \<open>FormatResponseNode.exec\<close>.\<close>

definition summary_prompt :: "string \<Rightarrow> string" where
  \<open>summary_prompt actions_summary =
       ''\<newline>''
       @ ''You are a coding assistant. You have just performed a series of actions based on the \<newline>''
       @ ''user\'s request. Summarize what you did in a clear, helpful response.\<newline>\<newline>''
       @ ''Here are the actions you performed:\<newline>''
       @ actions_summary
       @ ''\<newline>\<newline>Generate a comprehensive yet concise response that explains:\<newline>''
       @ ''1. What actions were taken\<newline>2. What was found or modified\<newline>''
       @ ''3. Any next steps the user might want to take\<newline>\<newline>IMPORTANT: \<newline>''
       @ ''- Focus on the outcomes and results, not the specific tools used\<newline>''
       @ ''- Write as if you are directly speaking to the user\<newline>''
       @ ''- When providing code examples or structured information, use YAML format enclosed in triple backticks\<newline>''\<close>

definition FormatResponseNode_exec ::
  "'fs env \<Rightarrow> 'fs world \<Rightarrow> pyval list \<Rightarrow> error + (string \<times> 'fs world)" where
  "FormatResponseNode_exec E w history =
     (if history = [] then Inr (''No actions were performed.'', w)
      else and_then (format_history_summary E history) (\<lambda>actions_summary.
             let prompt = summary_prompt actions_summary
             in and_then (call_llm E (calls w) prompt) (\<lambda>response.
                  Inr (response, w\<lparr>calls := calls w @ [Call_llm prompt]\<rparr>))))"

definition FormatResponseNode_post :: "shared \<Rightarrow> string \<Rightarrow> shared \<times> pyval" where
  "FormatResponseNode_post sh exec_res = (sh\<lparr>sh_response := Some exec_res\<rparr>, PStr ''done'')"

definition FormatResponseNode_run ::
  "'fs env \<Rightarrow> shared \<times> 'fs world \<Rightarrow> error + ((shared \<times> 'fs world) \<times> pyval)" where
  "FormatResponseNode_run E st =
     (case st of (sh, w) \<Rightarrow>
        and_then (FormatResponseNode_exec E w (sh_history sh)) (\<lambda>(exec_res, w').
          case FormatResponseNode_post sh exec_res of (sh', action) \<Rightarrow>
            Inr ((sh', w'), action)))"

section \<open>Main flow\<close>

text \<open>The nodes of \<open>create_main_flow\<close>, under the names the source gives them.\<close>

datatype node =
    main_agent
  | read_action
  | grep_action
  | list_dir_action
  | delete_action
  | insert_action
  | edit_agent
  | format_response
  | create_dir_action
  | delete_dir_action

text \<open>The transitions that \<open>create_main_flow\<close> wires.\<close>

fun successors :: "node \<Rightarrow> (string \<times> node) list" where
  "successors main_agent =
     [(''read_file'', read_action), (''grep_search'', grep_action),
      (''list_dir'', list_dir_action), (''delete_file'', delete_action),
      (''insert_file'', insert_action), (''edit_file'', edit_agent),
      (''create_directory'', create_dir_action), (''delete_directory'', delete_dir_action),
      (''finish'', format_response)]"
| "successors format_response = []"
| "successors n = [(''default'', main_agent)]"

text \<open>
  \<open>curr.successors.get(action or "default")\<close>: a falsy action means \<open>default\<close>; a list
  or dictionary cannot be looked up; any other value that is not a wired name gives no
  successor, which ends the flow.
\<close>

definition get_next_node :: "node \<Rightarrow> pyval \<Rightarrow> error + node option" where
  "get_next_node current action =
     (let key = (if truthy action then action else PStr ''default'')
      in case key of
           PStr name \<Rightarrow> Inr (map_of (successors current) name)
         | PList xs \<Rightarrow> Inl (TypeError (''unhashable type: '' @ quoted ''list''))
         | PDict d \<Rightarrow> Inl (TypeError (''unhashable type: '' @ quoted ''dict''))
         | _ \<Rightarrow> Inr None)"

fun node_run ::
  "'fs env \<Rightarrow> node \<Rightarrow> shared \<times> 'fs world \<Rightarrow> error + ((shared \<times> 'fs world) \<times> pyval)" where
  "node_run E main_agent st = MainDecisionAgent_run E st"
| "node_run E read_action st = ReadFileAction_run E st"
| "node_run E grep_action st = GrepSearchAction_run E st"
| "node_run E list_dir_action st = ListDirAction_run E st"
| "node_run E delete_action st = DeleteFileAction_run E st"
| "node_run E insert_action st = InsertFileAction_run E st"
| "node_run E edit_agent st = EditAgent_run E st"
| "node_run E format_response st = FormatResponseNode_run E st"
| "node_run E create_dir_action st = CreateDirectoryAction_run E st"
| "node_run E delete_dir_action st = DeleteDirectoryAction_run E st"

text \<open>
  The orchestration loop \<open>while curr: ...\<close> of the flow, started at node \<open>current\<close> (the source's \<open>curr\<close>). The
  first argument bounds the number of nodes run; \<open>None\<close> means the bound was reached
  with the loop still going. An exception ends the run with that exception.
\<close>

fun orch ::
  "'fs env \<Rightarrow> nat \<Rightarrow> node \<Rightarrow> shared \<times> 'fs world \<Rightarrow> (error + (shared \<times> 'fs world)) option" where
  "orch E 0 current st = None"
| "orch E (Suc fuel) current st =
     (case node_run E current st of
        Inl e \<Rightarrow> Some (Inl e)
      | Inr (st', action) \<Rightarrow>
          (case get_next_node current action of
             Inl e \<Rightarrow> Some (Inl e)
           | Inr None \<Rightarrow> Some (Inr st')
           | Inr (Some nxt) \<Rightarrow> orch E fuel nxt st'))"

text \<open>\<open>coding_agent_flow.run(shared)\<close>: the loop starts at the main agent.\<close>

definition coding_agent_flow_run ::
  "'fs env \<Rightarrow> nat \<Rightarrow> shared \<times> 'fs world \<Rightarrow> (error + (shared \<times> 'fs world)) option" where
  "coding_agent_flow_run E fuel st = orch E fuel main_agent st"

text \<open>\<open>run_flow_with_limit\<close>: reset the counter, set the limit, run, clear both.\<close>

definition run_flow_with_limit ::
  "'fs env \<Rightarrow> nat \<Rightarrow> shared \<times> 'fs world \<Rightarrow> int
     \<Rightarrow> (error + (shared \<times> 'fs world)) option" where
  "run_flow_with_limit E fuel st max_iterations =
     (case st of (sh, w) \<Rightarrow>
        case coding_agent_flow_run E fuel
               (sh\<lparr>sh_iteration_count := Some 0, sh_max_iterations := Some max_iterations\<rparr>, w) of
          None \<Rightarrow> None
        | Some (Inl e) \<Rightarrow> Some (Inl e)
        | Some (Inr (sh', w')) \<Rightarrow>
            Some (Inr (sh'\<lparr>sh_iteration_count := None, sh_max_iterations := None\<rparr>, w')))"

text \<open>The shared dictionary that \<open>run_flow\<close> of \<open>main.py\<close> starts from.\<close>

definition initial_shared :: "string \<Rightarrow> string \<Rightarrow> shared" where
  "initial_shared query working_dir =
     \<lparr> sh_user_query = query, sh_working_dir = working_dir, sh_history = [],
       sh_response = None, sh_iteration_count = None, sh_max_iterations = None,
       sh_edit_operations = None, sh_edit_reasoning = None \<rparr>"

text \<open>
  The call of the replace primitive that \<open>ApplyChangesNode.exec\<close> makes for one
  operation; used to state what the batch attempts.
\<close>

definition replace_call :: "pyval \<Rightarrow> error + call" where
  "replace_call op =
     and_then (py_getitem op ''target_file'') (\<lambda>target_file.
     and_then (py_getitem op ''start_line'') (\<lambda>start_line.
     and_then (py_getitem op ''end_line'') (\<lambda>end_line.
     and_then (py_getitem op ''replacement'') (\<lambda>content.
       Inr (Call_replace_file target_file start_line end_line content)))))"

section \<open>The validation rules in the specification's words\<close>

text \<open>
  What the specification asks of one operation of a plan for a file of \<open>total_lines\<close>
  lines: a mapping with integer \<open>start_line\<close> and \<open>end_line\<close> and a string
  \<open>replacement\<close>, both line numbers within 1 and \<open>total_lines + 1\<close>, and the start not
  after the end. The validation of the source is compared with it below.
\<close>

definition operation_ok :: "int \<Rightarrow> pyval \<Rightarrow> bool" where
  "operation_ok total_lines op =
     (case op of
        PDict d \<Rightarrow>
          (case (map_of d (PStr ''start_line''), map_of d (PStr ''end_line''),
                 map_of d (PStr ''replacement'')) of
             (Some s, Some e, Some r) \<Rightarrow>
               is_int s \<and> is_int e \<and> is_str r
               \<and> 1 \<le> int_of s \<and> int_of s \<le> total_lines + 1
               \<and> 1 \<le> int_of e \<and> int_of e \<le> total_lines + 1
               \<and> int_of s \<le> int_of e
           | _ \<Rightarrow> False)
      | _ \<Rightarrow> False)"

text \<open>The rules an operation can break, and when an operation breaks one.\<close>

datatype rule =
    Must_be_mapping
  | Missing_field string
  | Must_be_integer string
  | Must_be_string string
  | Out_of_range string
  | Start_after_end




section \<open>Line ranges and their replacement\<close>

text \<open>The line range that an operation names.\<close>

definition start_of :: "pyval \<Rightarrow> int" where
  "start_of op = (case py_getitem op ''start_line'' of Inr v \<Rightarrow> int_of v | Inl e \<Rightarrow> 0)"

definition end_of :: "pyval \<Rightarrow> int" where
  "end_of op = (case py_getitem op ''end_line'' of Inr v \<Rightarrow> int_of v | Inl e \<Rightarrow> 0)"

definition ranges_disjoint :: "pyval \<Rightarrow> pyval \<Rightarrow> bool" where
  "ranges_disjoint a b = (end_of a < start_of b \<or> end_of b < start_of a)"

text \<open>
  Modelled from the spec: the line-range primitive \<open>replace_file\<close> of
  \<open>utils/replace_file.py\<close> is not among the sources. The specification says that it
  replaces the inclusive range of lines \<open>start_line\<close> to \<open>end_line\<close>, numbered from 1,
  with the replacement's lines, of which there may be none or many; that replacing one
  line of an \<open>N\<close>-line file by \<open>R\<close> leaves \<open>N - 1\<close> lines plus those of \<open>R\<close>, the first
  of them at that line; and that a range starting and ending at \<open>N + 1\<close> appends
  without altering any existing line. A file is the list of its lines.
\<close>

definition spec_replace_range :: "string list \<Rightarrow> int \<Rightarrow> int \<Rightarrow> string list \<Rightarrow> string list" where
  "spec_replace_range file_lines start_line end_line replacement =
     take (nat (start_line - 1)) file_lines @ replacement @ drop (nat end_line) file_lines"

text \<open>The lines that a range names in a file.\<close>

definition slice :: "string list \<Rightarrow> int \<Rightarrow> int \<Rightarrow> string list" where
  "slice file_lines start_line end_line =
     take (nat (end_line - start_line + 1)) (drop (nat (start_line - 1)) file_lines)"

text \<open>
  Ranges with replacement lines are applied one after the other to \<open>current\<close>, which
  started as \<open>original\<close>. No operation is shifted when each, at the moment it is
  applied, names the same lines in the current file as in the original one.
\<close>

fun unshifted_run ::
  "string list \<Rightarrow> string list \<Rightarrow> (int \<times> int \<times> string list) list \<Rightarrow> bool" where
  "unshifted_run original current [] = True"
| "unshifted_run original current ((s, e, r) # ops) =
     (slice current s e = slice original s e
      \<and> unshifted_run original (spec_replace_range current s e r) ops)"

text \<open>Each operation lies strictly below all operations before it in the list.\<close>

fun below_earlier :: "(int \<times> int \<times> string list) list \<Rightarrow> bool" where
  "below_earlier [] = True"
| "below_earlier ((s, e, r) # ops) =
     ((\<forall>t\<in>set ops. fst (snd t) < s) \<and> below_earlier ops)"

text \<open>An operation with the target path written into it, as \<open>ApplyChangesNode.prep\<close> does.\<close>

definition tag_operation :: "pyval \<Rightarrow> pyval \<Rightarrow> pyval" where
  "tag_operation path op =
     (case op of PDict d \<Rightarrow> PDict (dict_set d (PStr ''target_file'') path) | _ \<Rightarrow> op)"

section \<open>A concrete environment for examples\<close>

text \<open>
  A loader defined on the few documents that the examples below use, with the value
  that \<open>yaml.safe_load\<close> gives for each; it rejects every other text. The empty
  document loads as \<open>None\<close>; an unclosed flow sequence is a scanner error.
\<close>

definition example_load :: "string \<Rightarrow> error + pyval" where
  "example_load s =
     (if s = [] then Inr PNone
      else if s = ''tool: read_file'' then Inr (PDict [(PStr ''tool'', PStr ''read_file'')])
      else if s = ''tool: finish'' then Inr (PDict [(PStr ''tool'', PStr ''finish'')])
      else if s = ''tool: finish\<newline>reason: done\<newline>params: {}'' then
        Inr (PDict [(PStr ''tool'', PStr ''finish''), (PStr ''reason'', PStr ''done''),
                    (PStr ''params'', PDict [])])
      else if s = ''tool: grep_search\<newline>reason: look for x\<newline>params:\<newline>  query: x'' then
        Inr (PDict [(PStr ''tool'', PStr ''grep_search''), (PStr ''reason'', PStr ''look for x''),
                    (PStr ''params'', PDict [(PStr ''query'', PStr ''x'')])])
      else if s = ''reason: none'' then Inr (PDict [(PStr ''reason'', PStr ''none'')])
      else if s = ''please.'' then Inr (PStr ''please.'')
      else if s = ''tool: ['' then Inl (YAMLError ''while parsing a flow sequence'')
      else Inl (YAMLError ''document not in the example table''))"

text \<open>
  An environment over a file system that maps a path to the text of the file there.
  The backend always answers with a \<open>finish\<close> decision; the file primitives are
  the simplest ones that fit their interface.
\<close>

definition example_env :: "(pyval \<Rightarrow> string option) env" where
  "example_env =
     \<lparr> call_llm = (\<lambda>past prompt. Inr ''tool: finish\<newline>reason: done\<newline>params: {}''),
       safe_load = example_load,
       repr_of = (\<lambda>v. ''<object>''),
       read_file = (\<lambda>path files. case files path of None \<Rightarrow> ([], False) | Some text \<Rightarrow> (text, True)),
       grep_search = (\<lambda>query case_sensitive include_pattern exclude_pattern working_dir files.
                        (True, [])),
       list_dir = (\<lambda>path files. (True, [])),
       insert_file = (\<lambda>path content files.
                        case content of
                          PStr text \<Rightarrow> ((True, ''created''), files(path \<mapsto> text))
                        | _ \<Rightarrow> ((False, ''content is not text''), files)),
       delete_file = (\<lambda>path files.
                        if files path = None then ((False, ''no such file''), files)
                        else ((True, ''deleted''), files(path := None))),
       replace_file = (\<lambda>path start_line end_line content files.
                        if files path = None then ((False, ''no such file''), files)
                        else ((True, ''replaced''), files)),
       makedirs = (\<lambda>path files. (Inr (), files)),
       path_exists = (\<lambda>path files. files path \<noteq> None),
       path_isdir = (\<lambda>path files. False),
       rmtree = (\<lambda>path files. (Inr (), files)) \<rparr>"

text \<open>A search for \<open>x\<close> whose primitive reports success and one match.\<close>

definition grep_example_shared :: shared where
  "grep_example_shared =
     (initial_shared ''find x'' ''project'')
       \<lparr> sh_history := [PDict [(PStr ''tool'', PStr ''grep_search''),
                                (PStr ''reason'', PStr ''look for x''),
                                (PStr ''params'', PDict [(PStr ''query'', PStr ''x'')])]],
         sh_iteration_count := Some 1 \<rparr>"

definition grep_example_match :: pyval where
  "grep_example_match =
     PDict [(PStr ''file'', PStr ''a.py''), (PStr ''line'', PInt 3),
            (PStr ''content'', PStr ''x = 1'')]"

definition grep_example_env :: "(pyval \<Rightarrow> string option) env" where
  "grep_example_env =
     example_env \<lparr> grep_search :=
       (\<lambda>query case_sensitive include_pattern exclude_pattern working_dir files.
          (True, [grep_example_match])) \<rparr>"

text \<open>A listing request whose decision carries no parameters at all.\<close>

definition list_dir_example_shared :: shared where
  "list_dir_example_shared =
     (initial_shared ''what is here'' ''project'')
       \<lparr> sh_history := [PDict [(PStr ''tool'', PStr ''list_dir''),
                                (PStr ''reason'', PStr ''look around''),
                                (PStr ''params'', PDict [])]],
         sh_iteration_count := Some 1 \<rparr>"

text \<open>An edit request for a file that exists and is empty.\<close>

definition edit_example_shared :: shared where
  "edit_example_shared =
     (initial_shared ''add a header'' ''project'')
       \<lparr> sh_history := [PDict [(PStr ''tool'', PStr ''edit_file''),
                                (PStr ''reason'', PStr ''add the header''),
                                (PStr ''params'',
                                 PDict [(PStr ''target_file'', PStr ''notes.txt''),
                                        (PStr ''instructions'', PStr ''Add a title line''),
                                        (PStr ''code_edit'', PStr ''# Notes'')])]],
         sh_iteration_count := Some 1 \<rparr>"

text \<open>
  A plan of two operations for \<open>notes.txt\<close>, a replace primitive that refuses line 3,
  and the state in which applying the plan ends.
\<close>

definition apply_example_shared :: shared where
  "apply_example_shared =
     (initial_shared ''fix two lines'' ''project'')
       \<lparr> sh_history := [PDict [(PStr ''tool'', PStr ''edit_file''),
                                (PStr ''reason'', PStr ''fix them''),
                                (PStr ''params'',
                                 PDict [(PStr ''target_file'', PStr ''notes.txt''),
                                        (PStr ''instructions'', PStr ''Fix both lines''),
                                        (PStr ''code_edit'', PStr ''one'')]),
                                (PStr ''file_content'', PStr ''a\<newline>b\<newline>c'')]],
         sh_iteration_count := Some 1,
         sh_edit_reasoning := Some (PStr ''lines 1 and 3 change''),
         sh_edit_operations :=
           Some (PList [PDict [(PStr ''start_line'', PInt 1), (PStr ''end_line'', PInt 1),
                               (PStr ''replacement'', PStr ''A'')],
                        PDict [(PStr ''start_line'', PInt 3), (PStr ''end_line'', PInt 3),
                               (PStr ''replacement'', PStr ''C'')]]) \<rparr>"

definition apply_example_env :: "(pyval \<Rightarrow> string option) env" where
  "apply_example_env =
     example_env \<lparr> replace_file :=
       (\<lambda>path start_line end_line content files.
          if start_line = PInt 3 then ((False, ''line 3 is locked''), files)
          else ((True, ''replaced''), files)) \<rparr>"

definition apply_example_result :: shared where
  "apply_example_result =
     apply_example_shared
       \<lparr> sh_history :=
           [PDict [(PStr ''tool'', PStr ''edit_file''),
                   (PStr ''reason'', PStr ''fix them''),
                   (PStr ''params'',
                    PDict [(PStr ''target_file'', PStr ''notes.txt''),
                           (PStr ''instructions'', PStr ''Fix both lines''),
                           (PStr ''code_edit'', PStr ''one'')]),
                   (PStr ''file_content'', PStr ''a\<newline>b\<newline>c''),
                   (PStr ''result'',
                    PDict [(PStr ''success'', PBool False),
                           (PStr ''operations'', PInt 2),
                           (PStr ''details'',
                            PList [PDict [(PStr ''success'', PBool False),
                                          (PStr ''message'', PStr ''line 3 is locked'')],
                                   PDict [(PStr ''success'', PBool True),
                                          (PStr ''message'', PStr ''replaced'')]]),
                           (PStr ''reasoning'', PStr ''lines 1 and 3 change'')])]],
         sh_edit_operations := None, sh_edit_reasoning := None \<rparr>"

definition apply_example_world :: "(pyval \<Rightarrow> string option) world" where
  "apply_example_world =
     \<lparr>fs = Map.empty,
      calls = [Call_replace_file (PStr ''project/notes.txt'') (PInt 3) (PInt 3) (PStr ''C''),
               Call_replace_file (PStr ''project/notes.txt'') (PInt 1) (PInt 1) (PStr ''A'')]\<rparr>"

text \<open>The world before a run: no files, no calls made.\<close>

definition example_world :: "(pyval \<Rightarrow> string option) world" where
  "example_world = \<lparr>fs = Map.empty, calls = []\<rparr>"

text \<open>
  A backend that always asks for the same search, the history entry such a search
  leaves behind, and a session that has used up a limit of one iteration.
\<close>

definition cap_example_env :: "(pyval \<Rightarrow> string option) env" where
  "cap_example_env =
     example_env \<lparr> call_llm :=
       (\<lambda>past prompt. Inr (''```yaml\<newline>tool: grep_search\<newline>reason: look for x\<newline>''
                             @ ''params:\<newline>  query: x\<newline>```'')) \<rparr>"

definition cap_example_entry :: pyval where
  "cap_example_entry =
     PDict [(PStr ''tool'', PStr ''grep_search''), (PStr ''reason'', PStr ''look for x''),
            (PStr ''params'', PDict [(PStr ''query'', PStr ''x'')]),
            (PStr ''result'', PDict [(PStr ''success'', PList []), (PStr ''matches'', PBool True)])]"

definition cap_example_shared :: shared where
  "cap_example_shared =
     (initial_shared ''find x'' ''project'')
       \<lparr> sh_history := [cap_example_entry],
         sh_iteration_count := Some 1, sh_max_iterations := Some 1 \<rparr>"

definition cap_example_decision :: pyval where
  "cap_example_decision =
     PDict [(PStr ''tool'', PStr ''grep_search''), (PStr ''reason'', PStr ''look for x''),
            (PStr ''params'', PDict [(PStr ''query'', PStr ''x'')])]"

text \<open>
  The plan of the session above, the operations prepared from it, and a plan for a
  file of five lines whose two ranges overlap.
\<close>

definition apply_example_plan :: "pyval list" where
  "apply_example_plan =
     [PDict [(PStr ''start_line'', PInt 1), (PStr ''end_line'', PInt 1),
             (PStr ''replacement'', PStr ''A'')],
      PDict [(PStr ''start_line'', PInt 3), (PStr ''end_line'', PInt 3),
             (PStr ''replacement'', PStr ''C'')]]"

definition apply_example_prepared :: "pyval list" where
  "apply_example_prepared =
     [PDict [(PStr ''start_line'', PInt 3), (PStr ''end_line'', PInt 3),
             (PStr ''replacement'', PStr ''C''),
             (PStr ''target_file'', PStr ''project/notes.txt'')],
      PDict [(PStr ''start_line'', PInt 1), (PStr ''end_line'', PInt 1),
             (PStr ''replacement'', PStr ''A''),
             (PStr ''target_file'', PStr ''project/notes.txt'')]]"

definition overlap_example_plan :: "pyval list" where
  "overlap_example_plan =
     [PDict [(PStr ''start_line'', PInt 2), (PStr ''end_line'', PInt 4),
             (PStr ''replacement'', PStr ''z'')],
      PDict [(PStr ''start_line'', PInt 3), (PStr ''end_line'', PInt 3),
             (PStr ''replacement'', PStr ''x\<newline>y'')]]"

text \<open>
  A backend that answers in plain prose, with no fenced block: \<open>yaml.safe_load\<close> reads
  such a sentence as one plain scalar, a string.
\<close>

definition prose_example_load :: "string \<Rightarrow> error + pyval" where
  "prose_example_load s =
     (if s = ''the right tool is finish'' then Inr (PStr ''the right tool is finish'')
      else example_load s)"

definition prose_example_env :: "(pyval \<Rightarrow> string option) env" where
  "prose_example_env =
     example_env \<lparr> call_llm := (\<lambda>past prompt. Inr ''the right tool is finish''),
                   safe_load := prose_example_load \<rparr>"

section \<open>Properties of the Decision Parser\<close>

text \<open>
  What the parser returns, by what the loader makes of the text that the layered
  extraction settles on (a fenced block, else the whole response). A loader error
  gives the synthetic decision with that error's description as the reason. A value
  that is falsy (\<open>None\<close>, an empty mapping, an empty string, ...) or that does not
  contain \<open>tool\<close> gives the synthetic decision with the reason
  \<open>Invalid tool decision format\<close>. A number or a truth value cannot be searched, and
  the \<open>TypeError\<close> of the test is the reason. Every other value, mapping or not, is
  returned as it was loaded.
\<close>

lemma fallback_on_loader_error:
  assumes "safe_load E (decision_yaml_content response) = Inl e"
  shows "decision_of_response E response =
           PDict [(PStr ''tool'', PStr ''finish''),
                  (PStr ''reason'', PStr (''Error parsing tool decision: '' @ str_error e)),
                  (PStr ''params'', PDict [])]"
  using assms by (simp add: decision_of_response_def parse_decision_def fallback_decision_def)

lemma fallback_on_invalid_value:
  assumes "safe_load E (decision_yaml_content response) = Inr decision"
    and "\<not> truthy decision \<or> py_contains ''tool'' decision = Inr False"
  shows "decision_of_response E response =
           PDict [(PStr ''tool'', PStr ''finish''),
                  (PStr ''reason'',
                   PStr ''Error parsing tool decision: Invalid tool decision format''),
                  (PStr ''params'', PDict [])]"
  using assms by (auto simp: decision_of_response_def parse_decision_def fallback_decision_def)

lemma fallback_on_unsearchable_value:
  assumes "safe_load E (decision_yaml_content response) = Inr decision"
    and "truthy decision" and "py_contains ''tool'' decision = Inl e"
  shows "decision_of_response E response =
           PDict [(PStr ''tool'', PStr ''finish''),
                  (PStr ''reason'', PStr (''Error parsing tool decision: '' @ str_error e)),
                  (PStr ''params'', PDict [])]"
  using assms by (simp add: decision_of_response_def parse_decision_def fallback_decision_def)

lemma loaded_value_with_tool_returned:
  assumes "safe_load E (decision_yaml_content response) = Inr decision"
    and "truthy decision" and "py_contains ''tool'' decision = Inr True"
  shows "decision_of_response E response = decision"
  using assms by (simp add: decision_of_response_def parse_decision_def)

text \<open>
  C3. The claim asks that a response from which no decision with a tool can be read
  is replaced by the synthetic \<open>finish\<close> decision, and that the parser never raises.
  In the source the test \<open>"tool" not in decision\<close> is made on whatever the loader
  returned. The planner's parser checks \<open>isinstance(decision, dict)\<close> first; this one
  does not, so for a string the test searches for the letters \<open>tool\<close>. Here the backend
  answers with the sentence \<open>the right tool is finish\<close>: the loader returns it as a
  string, the parser returns that string in place of a decision, and \<open>post\<close>, which
  reads \<open>exec_res["tool"]\<close>, raises a \<open>TypeError\<close>: the node ends with an exception
  where the claim promises the synthetic decision.
\<close>

theorem prose_decision_not_replaced:
  "decision_of_response prose_example_env ''the right tool is finish''
     = PStr ''the right tool is finish''
   \<and> (\<exists>msg. MainDecisionAgent_run prose_example_env
                (initial_shared ''fix the bug'' ''.'', example_world)
              = Inl (TypeError msg))
   \<and> (\<exists>msg. coding_agent_flow_run prose_example_env 1
                (initial_shared ''fix the bug'' ''.'', example_world)
              = Some (Inl (TypeError msg)))"
proof -
  have c: "decision_yaml_content ''the right tool is finish'' = ''the right tool is finish''"
    by (simp add: decision_yaml_content_def extract_yaml_content_def py_strip_def is_space_def)
  have d: "decision_of_response prose_example_env ''the right tool is finish''
             = PStr ''the right tool is finish''"
    by (simp add: decision_of_response_def parse_decision_def c prose_example_env_def
        prose_example_load_def example_env_def)
  have e: "MainDecisionAgent_exec prose_example_env example_world
             (''fix the bug'', [])
           = Inr (decision_of_response prose_example_env ''the right tool is finish'',
                  example_world\<lparr>calls := [Call_llm (decision_prompt ''fix the bug''
                                                       ''No previous actions.'')]\<rparr>)"
    by (simp add: MainDecisionAgent_exec_def format_history_summary_def and_then_def
        prose_example_env_def example_env_def example_world_def)
  have r: "MainDecisionAgent_run prose_example_env
                (initial_shared ''fix the bug'' ''.'', example_world)
              = Inl (TypeError ''string indices must be integers'')"
    by (simp add: MainDecisionAgent_run_def MainDecisionAgent_prep_def initial_shared_def
        e d MainDecisionAgent_post_def and_then_def Let_def)
  have f: "coding_agent_flow_run prose_example_env 1
                (initial_shared ''fix the bug'' ''.'', example_world)
              = Some (Inl (TypeError ''string indices must be integers''))"
    by (simp add: coding_agent_flow_run_def r)
  from d r f show ?thesis by blast
qed

section \<open>Facts about the string operations\<close>















section \<open>Re-wrapping a structured block\<close>









section \<open>Properties of the Patch Planner's validation\<close>

lemma check_operation_ok:
  "check_operation E total_lines i op = Inr () \<longleftrightarrow> operation_ok total_lines op"
  by (auto simp: check_operation_def operation_ok_def
      split: pyval.splits option.splits)



lemma validate_operations_ok:
  "validate_operations E total_lines i ops = Inr ()
   \<longleftrightarrow> (\<forall>op\<in>set ops. operation_ok total_lines op)"
proof (induction ops arbitrary: i)
  case Nil
  show ?case by simp
next
  case (Cons op ops)
  show ?case
  proof (cases "check_operation E total_lines i op")
    case (Inl e)
    then have "\<not> operation_ok total_lines op"
      using check_operation_ok [of E total_lines i op] by simp
    with Inl show ?thesis by (simp add: and_then_def)
  next
    case (Inr u)
    then have "operation_ok total_lines op"
      using check_operation_ok [of E total_lines i op] by simp
    with Inr Cons.IH [of "Suc i"] show ?thesis by (simp add: and_then_def)
  qed
qed




text \<open>
  The three rejections the specification names, for a file of three lines: a start
  line of 0, an end line beyond \<open>total_lines + 1\<close>, and a start after the end.
\<close>

lemma validation_rejects_named_cases:
  "validate_operations example_env 3 0
     [PDict [(PStr ''start_line'', PInt 0), (PStr ''end_line'', PInt 1),
             (PStr ''replacement'', PStr ''y'')]]
   = Inl (ValueError (''Operation 1 '' @ quoted ''start_line'' @ '' out of range: 0''))"
  "validate_operations example_env 3 0
     [PDict [(PStr ''start_line'', PInt 1), (PStr ''end_line'', PInt 1),
             (PStr ''replacement'', PStr ''x'')],
      PDict [(PStr ''start_line'', PInt 2), (PStr ''end_line'', PInt 5),
             (PStr ''replacement'', PStr ''y'')]]
   = Inl (ValueError (''Operation 2 '' @ quoted ''end_line'' @ '' out of range: 5''))"
  "validate_operations example_env 3 0
     [PDict [(PStr ''start_line'', PInt 3), (PStr ''end_line'', PInt 2),
             (PStr ''replacement'', PStr ''y'')]]
   = Inl (ValueError (''Operation 1 '' @ quoted ''start_line'' @ '' (3) > ''
            @ quoted ''end_line'' @ '' (2)''))"
  by (simp_all add: check_operation_def and_then_def str_nat.simps str_int_def quoted_def)

section \<open>The result of a search\<close>

text \<open>
  C2. The claim asks that the stored result carry the primitive's flag under
  \<open>success\<close> and its list under \<open>matches\<close>. The handler stores them the other way
  round: for a primitive that answers \<open>(True, [m])\<close> the entry's \<open>success\<close> field is
  the list \<open>[m]\<close> and its \<open>matches\<close> field is \<open>True\<close>.
\<close>

theorem grep_result_fields_swapped:
  "GrepSearchAction_run grep_example_env (grep_example_shared, \<lparr>fs = Map.empty, calls = []\<rparr>)
   = Inr ((grep_example_shared
             \<lparr> sh_history := [PDict [(PStr ''tool'', PStr ''grep_search''),
                                      (PStr ''reason'', PStr ''look for x''),
                                      (PStr ''params'', PDict [(PStr ''query'', PStr ''x'')]),
                                      (PStr ''result'',
                                       PDict [(PStr ''success'', PList [grep_example_match]),
                                              (PStr ''matches'', PBool True)])]] \<rparr>,
           \<lparr>fs = Map.empty,
            calls = [Call_grep_search (PStr ''x'') (PBool False) PNone PNone ''project'']\<rparr>),
          PNone)"
  by (simp add: GrepSearchAction_run_def GrepSearchAction_prep_def GrepSearchAction_exec_def
      GrepSearchAction_post_def grep_example_env_def grep_example_shared_def initial_shared_def
      example_env_def last_action_of_def set_last_field_def and_then_def)


text \<open>
  With that entry in the history the next rendering of the history takes the length
  of \<open>True\<close> and raises, so the run stops at the following decision step.
\<close>

lemma grep_result_breaks_rendering:
  "format_history_summary grep_example_env
     [PDict [(PStr ''tool'', PStr ''grep_search''),
             (PStr ''reason'', PStr ''look for x''),
             (PStr ''params'', PDict [(PStr ''query'', PStr ''x'')]),
             (PStr ''result'',
              PDict [(PStr ''success'', PList [grep_example_match]),
                     (PStr ''matches'', PBool True)])]]
   = Inl (TypeError (''object of type '' @ quoted ''bool'' @ '' has no len()''))"
  by (simp add: format_history_summary_def format_action_def format_result_details_def
      format_param_def and_then_def quoted_def)


section \<open>The default path of the listing handler\<close>

lemma map_of_dict_set:
  "map_of (dict_set d k v) k' = (if k' = k then Some v else map_of d k')"
  by (induction d) auto

lemma list_dir_prep_default:
  assumes "sh_history sh \<noteq> []"
    and "last (sh_history sh) = PDict a"
    and "map_of a (PStr ''params'') = Some (PDict ps)"
    and "map_of ps (PStr ''relative_workspace_path'') = None"
  shows "ListDirAction_prep sh =
           (if sh_working_dir sh = [] then Inr (PStr ''.'')
            else os_path_join (sh_working_dir sh) (PStr ''.''))"
  using assms
  by (simp add: ListDirAction_prep_def last_action_of_def and_then_def full_path_of_def
      split: option.splits)

lemma missing_parameter_faults:
  assumes "sh_history sh \<noteq> []"
    and "last (sh_history sh) = PDict a"
    and "map_of a (PStr ''params'') = Some (PDict ps)"
  shows "map_of ps (PStr ''target_file'') = None \<Longrightarrow>
           ReadFileAction_prep sh = Inl (ValueError ''Missing target_file parameter'')"
    and "map_of ps (PStr ''target_file'') = None \<Longrightarrow>
           DeleteFileAction_prep sh = Inl (ValueError ''Missing target_file parameter'')"
    and "map_of ps (PStr ''target_file'') = None \<Longrightarrow>
           InsertFileAction_prep sh = Inl (ValueError ''Missing target_file parameter'')"
    and "map_of ps (PStr ''target_file'') = None \<Longrightarrow>
           ReadTargetFileNode_prep sh = Inl (ValueError ''Missing target_file parameter'')"
    and "map_of ps (PStr ''target_dir'') = None \<Longrightarrow>
           CreateDirectoryAction_prep sh = Inl (ValueError ''Missing target_dir parameter'')"
    and "map_of ps (PStr ''target_dir'') = None \<Longrightarrow>
           DeleteDirectoryAction_prep sh = Inl (ValueError ''Missing target_dir parameter'')"
    and "map_of ps (PStr ''query'') = None \<Longrightarrow>
           GrepSearchAction_prep sh = Inl (ValueError ''Missing query parameter'')"
proof -
  show "map_of ps (PStr ''query'') = None \<Longrightarrow>
           GrepSearchAction_prep sh = Inl (ValueError ''Missing query parameter'')"
  proof -
    assume "map_of ps (PStr ''query'') = None"
    then have "PStr ''query'' \<notin> fst ` set ps" by (simp add: map_of_eq_None_iff)
    with assms show ?thesis
      by (simp add: GrepSearchAction_prep_def last_action_of_def and_then_def)
  qed
qed (use assms in \<open>simp_all add: ReadFileAction_prep_def DeleteFileAction_prep_def
      InsertFileAction_prep_def ReadTargetFileNode_prep_def CreateDirectoryAction_prep_def
      DeleteDirectoryAction_prep_def directory_prep_def last_action_of_def and_then_def
      split: option.splits\<close>)

text \<open>
  C9. When the parameters of a \<open>list_dir\<close> action are a mapping without
  \<open>relative_workspace_path\<close>, the handler's \<open>prep\<close> does not raise: the path is \<open>.\<close>,
  joined to the working directory when there is one; the handler then lists that path
  and stores the outcome in the entry. The other handlers raise a \<open>ValueError\<close> that
  names the parameter when their own required parameter is missing.
\<close>

theorem list_dir_defaults_to_root:
  assumes "sh_history sh \<noteq> []"
    and "last (sh_history sh) = PDict a"
    and "map_of a (PStr ''params'') = Some (PDict ps)"
    and "map_of ps (PStr ''relative_workspace_path'') = None"
    and "path = (if sh_working_dir sh = [] then ''.''
                 else if last (sh_working_dir sh) = CHR ''/'' then sh_working_dir sh @ ''.''
                 else sh_working_dir sh @ ''/.'')"
    and "list_dir E (PStr path) (fs w) = (success, tree_str)"
  shows "ListDirAction_prep sh = Inr (PStr path)
         \<and> ListDirAction_run E (sh, w) =
             Inr ((sh\<lparr>sh_history := butlast (sh_history sh)
                      @ [PDict (dict_set a (PStr ''result'')
                           (PDict [(PStr ''success'', PBool success),
                                   (PStr ''tree_visualization'', PStr tree_str)]))]\<rparr>,
                   w\<lparr>calls := calls w @ [Call_list_dir (PStr path)]\<rparr>),
                  PNone)
         \<and> (map_of ps (PStr ''target_file'') = None \<longrightarrow>
              ReadFileAction_prep sh = Inl (ValueError ''Missing target_file parameter'')
              \<and> DeleteFileAction_prep sh = Inl (ValueError ''Missing target_file parameter'')
              \<and> InsertFileAction_prep sh = Inl (ValueError ''Missing target_file parameter'')
              \<and> ReadTargetFileNode_prep sh = Inl (ValueError ''Missing target_file parameter''))
         \<and> (map_of ps (PStr ''target_dir'') = None \<longrightarrow>
              CreateDirectoryAction_prep sh = Inl (ValueError ''Missing target_dir parameter'')
              \<and> DeleteDirectoryAction_prep sh = Inl (ValueError ''Missing target_dir parameter''))
         \<and> (map_of ps (PStr ''query'') = None \<longrightarrow>
              GrepSearchAction_prep sh = Inl (ValueError ''Missing query parameter''))"
proof -
  have prep: "ListDirAction_prep sh = Inr (PStr path)"
    using list_dir_prep_default [OF assms(1-4)] assms(5)
    by (simp add: os_path_join_def)
  have run: "ListDirAction_run E (sh, w) =
             Inr ((sh\<lparr>sh_history := butlast (sh_history sh)
                      @ [PDict (dict_set a (PStr ''result'')
                           (PDict [(PStr ''success'', PBool success),
                                   (PStr ''tree_visualization'', PStr tree_str)]))]\<rparr>,
                   w\<lparr>calls := calls w @ [Call_list_dir (PStr path)]\<rparr>),
                  PNone)"
    using assms(1,2,6)
    by (simp add: ListDirAction_run_def prep ListDirAction_exec_def ListDirAction_post_def
        set_last_field_def and_then_def)
  show ?thesis
    using prep run missing_parameter_faults [OF assms(1-3)] by blast
qed

theorem list_dir_defaults_to_root_witness:
  "ListDirAction_prep list_dir_example_shared = Inr (PStr ''project/.'')
   \<and> ListDirAction_run example_env (list_dir_example_shared, \<lparr>fs = Map.empty, calls = []\<rparr>) =
       Inr ((list_dir_example_shared
               \<lparr>sh_history := [PDict [(PStr ''tool'', PStr ''list_dir''),
                                       (PStr ''reason'', PStr ''look around''),
                                       (PStr ''params'', PDict []),
                                       (PStr ''result'',
                                        PDict [(PStr ''success'', PBool True),
                                               (PStr ''tree_visualization'', PStr [])])]]\<rparr>,
             \<lparr>fs = Map.empty, calls = [Call_list_dir (PStr ''project/.'')]\<rparr>),
            PNone)
   \<and> ReadFileAction_prep list_dir_example_shared
       = Inl (ValueError ''Missing target_file parameter'')
   \<and> CreateDirectoryAction_prep list_dir_example_shared
       = Inl (ValueError ''Missing target_dir parameter'')
   \<and> GrepSearchAction_prep list_dir_example_shared
       = Inl (ValueError ''Missing query parameter'')"
proof -
  let ?a = "[(PStr ''tool'', PStr ''list_dir''), (PStr ''reason'', PStr ''look around''),
             (PStr ''params'', PDict [])]"
  have h1: "sh_history list_dir_example_shared \<noteq> []"
    and h2: "last (sh_history list_dir_example_shared) = PDict ?a"
    by (simp_all add: list_dir_example_shared_def initial_shared_def)
  have h3: "map_of ?a (PStr ''params'') = Some (PDict [])" by simp
  have h4: "map_of [] (PStr ''relative_workspace_path'') = (None :: pyval option)" by simp
  have h5: "''project/.'' =
       (if sh_working_dir list_dir_example_shared = [] then ''.''
        else if last (sh_working_dir list_dir_example_shared) = CHR ''/''
             then sh_working_dir list_dir_example_shared @ ''.''
             else sh_working_dir list_dir_example_shared @ ''/.'')"
    by (simp add: list_dir_example_shared_def initial_shared_def)
  have h6: "list_dir example_env (PStr ''project/.'') (fs \<lparr>fs = Map.empty, calls = []\<rparr>)
            = (True, [])"
    by (simp add: example_env_def)
  have h7: "butlast (sh_history list_dir_example_shared) = []"
    by (simp add: list_dir_example_shared_def initial_shared_def)
  from list_dir_defaults_to_root [OF h1 h2 h3 h4 h5 h6]
  show ?thesis by (simp add: h7)
qed


section \<open>Editing a file whose content is empty\<close>

lemma read_target_prep_shape:
  assumes "ReadTargetFileNode_prep sh = Inr path"
  shows "sh_history sh \<noteq> [] \<and> (\<exists>a ps. last (sh_history sh) = PDict a
           \<and> map_of a (PStr ''params'') = Some (PDict ps))"
proof -
  from assms have ne: "sh_history sh \<noteq> []"
    by (auto simp: ReadTargetFileNode_prep_def last_action_of_def and_then_def
        split: if_splits)
  from assms ne obtain params where
    p: "py_getitem (last (sh_history sh)) ''params'' = Inr params"
    by (auto simp: ReadTargetFileNode_prep_def last_action_of_def and_then_def
        split: sum.splits)
  then obtain a where a: "last (sh_history sh) = PDict a"
    by (cases "last (sh_history sh)") auto
  with p have m: "map_of a (PStr ''params'') = Some params"
    by (auto split: option.splits)
  from assms ne p obtain v where "py_get params ''target_file'' PNone = Inr v"
    by (auto simp: ReadTargetFileNode_prep_def last_action_of_def and_then_def
        split: sum.splits)
  then obtain ps where "params = PDict ps" by (cases params) auto
  with ne a m show ?thesis by blast
qed

lemma plan_prep_rejects_empty_content:
  assumes "sh_history sh \<noteq> []"
    and "last (sh_history sh) = PDict a"
    and "map_of a (PStr ''file_content'') = Some (PStr [])"
    and "map_of a (PStr ''params'') = Some (PDict ps)"
  shows "AnalyzeAndPlanNode_prep sh = Inl (ValueError ''File content not found'')"
  using assms
  by (simp add: AnalyzeAndPlanNode_prep_def last_action_of_def and_then_def
      split: option.splits)

text \<open>
  C10. When the read of the target file goes through and yields the empty string (the
  file is empty, or the primitive reports a failed read with no text), the entry's
  \<open>file_content\<close> is the empty string, the planner's \<open>prep\<close> takes it as absent and
  raises \<open>ValueError("File content not found")\<close>, and the edit agent ends with that
  fault before any plan is made or applied.
\<close>

theorem empty_snapshot_blocks_edit:
  assumes "ReadTargetFileNode_prep sh = Inr path"
    and "fst (read_file E path (fs w)) = []"
  shows "EditAgent_run E (sh, w) = Inl (ValueError ''File content not found'')"
proof -
  from read_target_prep_shape [OF assms(1)] obtain a ps where
    ne: "sh_history sh \<noteq> []" and a: "last (sh_history sh) = PDict a"
    and ps: "map_of a (PStr ''params'') = Some (PDict ps)"
    by blast
  define sh' where
    "sh' = sh\<lparr>sh_history := butlast (sh_history sh)
                 @ [PDict (dict_set a (PStr ''file_content'') (PStr []))]\<rparr>"
  define w' where "w' = w\<lparr>calls := calls w @ [Call_read_file path]\<rparr>"
  obtain ok where r: "read_file E path (fs w) = ([], ok)"
    using assms(2) by (cases "read_file E path (fs w)") auto
  have read: "ReadTargetFileNode_run E (sh, w) = Inr ((sh', w'), PNone)"
    using ne a r
    by (simp add: ReadTargetFileNode_run_def assms(1) ReadTargetFileNode_exec_def
        ReadTargetFileNode_post_def set_last_field_def and_then_def sh'_def w'_def)
  have "AnalyzeAndPlanNode_prep sh' = Inl (ValueError ''File content not found'')"
  proof (rule plan_prep_rejects_empty_content)
    show "sh_history sh' \<noteq> []" by (simp add: sh'_def)
    show "last (sh_history sh') = PDict (dict_set a (PStr ''file_content'') (PStr []))"
      by (simp add: sh'_def)
    show "map_of (dict_set a (PStr ''file_content'') (PStr [])) (PStr ''file_content'')
          = Some (PStr [])"
      by (simp add: map_of_dict_set)
    show "map_of (dict_set a (PStr ''file_content'') (PStr [])) (PStr ''params'')
          = Some (PDict ps)"
      using ps by (simp add: map_of_dict_set)
  qed
  then have "AnalyzeAndPlanNode_run E (sh', w') = Inl (ValueError ''File content not found'')"
    by (simp add: AnalyzeAndPlanNode_run_def and_then_def)
  with read show ?thesis
    by (simp add: EditAgent_run_def and_then_def)
qed

theorem empty_snapshot_blocks_edit_witness:
  "ReadTargetFileNode_prep edit_example_shared = Inr (PStr ''project/notes.txt'')
   \<and> fst (read_file example_env (PStr ''project/notes.txt'')
            (fs \<lparr>fs = [PStr ''project/notes.txt'' \<mapsto> []], calls = []\<rparr>)) = []
   \<and> EditAgent_run example_env
        (edit_example_shared, \<lparr>fs = [PStr ''project/notes.txt'' \<mapsto> []], calls = []\<rparr>)
      = Inl (ValueError ''File content not found'')"
proof -
  have p: "ReadTargetFileNode_prep edit_example_shared = Inr (PStr ''project/notes.txt'')"
    by (simp add: ReadTargetFileNode_prep_def edit_example_shared_def initial_shared_def
        last_action_of_def and_then_def full_path_of_def os_path_join_def)
  have r: "fst (read_file example_env (PStr ''project/notes.txt'')
            (fs \<lparr>fs = [PStr ''project/notes.txt'' \<mapsto> []], calls = []\<rparr>)) = []"
    by (simp add: example_env_def)
  from empty_snapshot_blocks_edit [OF p r] p r show ?thesis by blast
qed

section \<open>The aggregate result of an edit\<close>

lemma exec_all_shape:
  "ApplyChangesNode_exec_all E w ops = Inr (rs, w') \<Longrightarrow>
   length rs = length ops \<and> (\<exists>cs. map_err replace_call ops = Inr cs \<and> calls w' = calls w @ cs)"
proof (induction ops arbitrary: w rs)
  case Nil
  then show ?case by simp
next
  case (Cons op ops)
  from Cons.prems obtain r w1 where
    one: "ApplyChangesNode_exec E w op = Inr (r, w1)"
    by (auto simp: and_then_def split: sum.splits)
  with Cons.prems obtain rs1 where
    rest: "ApplyChangesNode_exec_all E w1 ops = Inr (rs1, w')" and rs: "rs = r # rs1"
    by (auto simp: and_then_def split: sum.splits)
  from one obtain c where c: "replace_call op = Inr c" "calls w1 = calls w @ [c]"
    by (auto simp: ApplyChangesNode_exec_def replace_call_def and_then_def
        split: sum.splits prod.splits)
  from Cons.IH [OF rest] obtain cs where
    "length rs1 = length ops" "map_err replace_call ops = Inr cs" "calls w' = calls w1 @ cs"
    by blast
  with c rs show ?case by (simp add: and_then_def)
qed

lemma exec_all_total:
  "map_err replace_call ops = Inr cs \<Longrightarrow>
   \<exists>rs w'. ApplyChangesNode_exec_all E w ops = Inr (rs, w')"
proof (induction ops arbitrary: w cs)
  case Nil
  then show ?case by simp
next
  case (Cons op ops)
  from Cons.prems obtain c cs1 where
    c: "replace_call op = Inr c" and cs1: "map_err replace_call ops = Inr cs1"
    by (auto simp: and_then_def split: sum.splits)
  from c obtain tf sl el ct where g:
    "py_getitem op ''target_file'' = Inr tf" "py_getitem op ''start_line'' = Inr sl"
    "py_getitem op ''end_line'' = Inr el" "py_getitem op ''replacement'' = Inr ct"
    by (auto simp: replace_call_def and_then_def split: sum.splits)
  obtain r fs' where "replace_file E tf sl el ct (fs w) = (r, fs')"
    by (cases "replace_file E tf sl el ct (fs w)") auto
  with g obtain w1 where one: "ApplyChangesNode_exec E w op = Inr (r, w1)"
    by (simp add: ApplyChangesNode_exec_def and_then_def)
  from Cons.IH [OF cs1, of w1] obtain rs w' where
    "ApplyChangesNode_exec_all E w1 ops = Inr (rs, w')" by blast
  with one show ?case by (simp add: and_then_def)
qed

lemma apply_prep_keeps:
  "ApplyChangesNode_prep sh = Inr (sh1, ops) \<Longrightarrow>
   sh_history sh1 = sh_history sh \<and> sh_edit_reasoning sh1 = sh_edit_reasoning sh"
  by (auto simp: ApplyChangesNode_prep_def and_then_def Let_def
      split: if_splits sum.splits)

lemma exec_all_attempts_all:
  assumes cs: "map_err replace_call ops = Inr cs"
  shows "\<exists>rs w'. ApplyChangesNode_exec_all E w ops = Inr (rs, w')
           \<and> length rs = length ops \<and> calls w' = calls w @ cs"
proof -
  from exec_all_total [OF cs, of E w] obtain rs w' where
    r: "ApplyChangesNode_exec_all E w ops = Inr (rs, w')" by blast
  from exec_all_shape [OF r] cs have "length rs = length ops \<and> calls w' = calls w @ cs"
    by auto
  with r show ?thesis by blast
qed

text \<open>
  C6. When the Patch Applier completes for an edit action, every prepared operation
  was executed (one outcome per operation), and the entry's result holds: under
  \<open>success\<close> the conjunction of the outcomes' flags, under \<open>operations\<close> their number,
  under \<open>details\<close> each outcome's flag and message, and under \<open>reasoning\<close> the stored
  planning reasoning; afterwards \<open>edit_operations\<close> and \<open>edit_reasoning\<close> are gone from
  the session state. Whatever flags the replace primitive returns, the batch calls it
  once for each operation, in the prepared order: a failed outcome stops nothing.
\<close>

theorem edit_result_aggregates:
  assumes run: "ApplyChangesNode_run E (sh, w) = Inr ((sh', w'), action)"
    and ne: "sh_history sh \<noteq> []"
  shows "\<exists>sh1 ops rs a.
           ApplyChangesNode_prep sh = Inr (sh1, ops)
           \<and> ApplyChangesNode_exec_all E w ops = Inr (rs, w')
           \<and> length rs = length ops
           \<and> last (sh_history sh') = PDict a
           \<and> map_of a (PStr ''result'') =
               Some (PDict [(PStr ''success'', PBool (\<forall>r\<in>set rs. fst r)),
                            (PStr ''operations'', PInt (int (length rs))),
                            (PStr ''details'',
                             PList (map (\<lambda>r. PDict [(PStr ''success'', PBool (fst r)),
                                                       (PStr ''message'', PStr (snd r))]) rs)),
                            (PStr ''reasoning'',
                             (case sh_edit_reasoning sh of None \<Rightarrow> PStr [] | Some v \<Rightarrow> v))])
           \<and> sh_edit_operations sh' = None \<and> sh_edit_reasoning sh' = None
           \<and> (\<forall>E' w0 cs. map_err replace_call ops = Inr cs \<longrightarrow>
                 (\<exists>rs0 w1. ApplyChangesNode_exec_all E' w0 ops = Inr (rs0, w1)
                    \<and> length rs0 = length ops \<and> calls w1 = calls w0 @ cs))"
proof -
  from run obtain sh1 ops where prep: "ApplyChangesNode_prep sh = Inr (sh1, ops)"
    by (auto simp: ApplyChangesNode_run_def and_then_def split: sum.splits)
  with run obtain rs where ex: "ApplyChangesNode_exec_all E w ops = Inr (rs, w')"
    and post: "ApplyChangesNode_post sh1 rs = Inr (sh', action)"
    by (auto simp: ApplyChangesNode_run_def and_then_def split: sum.splits)
  from apply_prep_keeps [OF prep] have keep:
    "sh_history sh1 = sh_history sh" "sh_edit_reasoning sh1 = sh_edit_reasoning sh"
    by simp_all
  let ?R = "PDict [(PStr ''success'', PBool (\<forall>r\<in>set rs. fst r)),
                   (PStr ''operations'', PInt (int (length rs))),
                   (PStr ''details'',
                    PList (map (\<lambda>r. PDict [(PStr ''success'', PBool (fst r)),
                                              (PStr ''message'', PStr (snd r))]) rs)),
                   (PStr ''reasoning'',
                    (case sh_edit_reasoning sh of None \<Rightarrow> PStr [] | Some v \<Rightarrow> v))]"
  have details: "map message_result rs
                 = map (\<lambda>r. PDict [(PStr ''success'', PBool (fst r)),
                                    (PStr ''message'', PStr (snd r))]) rs"
    by (simp add: message_result_def case_prod_beta)
  from post obtain sh2 where
    set: "set_last_field sh1 ''result'' ?R = Inr sh2"
    and sh': "sh' = sh2\<lparr>sh_edit_operations := None, sh_edit_reasoning := None\<rparr>"
    by (auto simp: ApplyChangesNode_post_def and_then_def Let_def keep details list_all_iff
        split: sum.splits)
  from set ne keep obtain entry where
    entry: "py_setitem (last (sh_history sh)) ''result'' ?R = Inr entry"
    and sh2: "sh2 = sh1\<lparr>sh_history := butlast (sh_history sh) @ [entry]\<rparr>"
    by (auto simp: set_last_field_def and_then_def split: sum.splits)
  from entry obtain a0 where a0: "last (sh_history sh) = PDict a0"
    by (cases "last (sh_history sh)") auto
  with entry have e: "entry = PDict (dict_set a0 (PStr ''result'') ?R)" by auto
  have last: "last (sh_history sh') = PDict (dict_set a0 (PStr ''result'') ?R)"
    by (simp add: sh' sh2 e)
  have res: "map_of (dict_set a0 (PStr ''result'') ?R) (PStr ''result'') = Some ?R"
    by (simp add: map_of_dict_set)
  have cleared: "sh_edit_operations sh' = None \<and> sh_edit_reasoning sh' = None"
    by (simp add: sh')
  have total: "\<forall>E' w0 cs. map_err replace_call ops = Inr cs \<longrightarrow>
                 (\<exists>rs0 w1. ApplyChangesNode_exec_all E' w0 ops = Inr (rs0, w1)
                    \<and> length rs0 = length ops \<and> calls w1 = calls w0 @ cs)"
    using exec_all_attempts_all by blast
  from exec_all_shape [OF ex] have len: "length rs = length ops" by simp
  show ?thesis
    using prep ex len last res cleared total by blast
qed

lemma apply_example_run:
  "ApplyChangesNode_run apply_example_env
     (apply_example_shared, \<lparr>fs = Map.empty, calls = []\<rparr>)
   = Inr ((apply_example_result, apply_example_world), PNone)"
  by (simp add: ApplyChangesNode_run_def ApplyChangesNode_prep_def ApplyChangesNode_exec_def
      ApplyChangesNode_post_def sorted_by_start_desc_def start_line_key_def
      apply_example_env_def apply_example_shared_def initial_shared_def example_env_def
      last_action_of_def set_last_field_def full_path_of_def os_path_join_def
      message_result_def and_then_def apply_example_result_def apply_example_world_def)

theorem edit_result_aggregates_witness:
  "ApplyChangesNode_run apply_example_env
     (apply_example_shared, \<lparr>fs = Map.empty, calls = []\<rparr>)
   = Inr ((apply_example_result, apply_example_world), PNone)
   \<and> sh_history apply_example_shared \<noteq> []
   \<and> (\<exists>sh1 ops rs a.
           ApplyChangesNode_prep apply_example_shared = Inr (sh1, ops)
           \<and> ApplyChangesNode_exec_all apply_example_env \<lparr>fs = Map.empty, calls = []\<rparr> ops
               = Inr (rs, apply_example_world)
           \<and> length rs = length ops
           \<and> last (sh_history apply_example_result) = PDict a
           \<and> map_of a (PStr ''result'') =
               Some (PDict [(PStr ''success'', PBool (\<forall>r\<in>set rs. fst r)),
                            (PStr ''operations'', PInt (int (length rs))),
                            (PStr ''details'',
                             PList (map (\<lambda>r. PDict [(PStr ''success'', PBool (fst r)),
                                                       (PStr ''message'', PStr (snd r))]) rs)),
                            (PStr ''reasoning'',
                             (case sh_edit_reasoning apply_example_shared of
                                None \<Rightarrow> PStr [] | Some v \<Rightarrow> v))])
           \<and> sh_edit_operations apply_example_result = None
           \<and> sh_edit_reasoning apply_example_result = None
           \<and> (\<forall>E' w0 cs. map_err replace_call ops = Inr cs \<longrightarrow>
                 (\<exists>rs0 w1. ApplyChangesNode_exec_all (E' :: (pyval \<Rightarrow> string option) env) w0 ops
                              = Inr (rs0, w1)
                    \<and> length rs0 = length ops \<and> calls w1 = calls w0 @ cs)))"
proof (intro conjI)
  show run: "ApplyChangesNode_run apply_example_env
     (apply_example_shared, \<lparr>fs = Map.empty, calls = []\<rparr>)
   = Inr ((apply_example_result, apply_example_world), PNone)"
    by (rule apply_example_run)
  show ne: "sh_history apply_example_shared \<noteq> []"
    by (simp add: apply_example_shared_def initial_shared_def)
  show "\<exists>sh1 ops rs a.
           ApplyChangesNode_prep apply_example_shared = Inr (sh1, ops)
           \<and> ApplyChangesNode_exec_all apply_example_env \<lparr>fs = Map.empty, calls = []\<rparr> ops
               = Inr (rs, apply_example_world)
           \<and> length rs = length ops
           \<and> last (sh_history apply_example_result) = PDict a
           \<and> map_of a (PStr ''result'') =
               Some (PDict [(PStr ''success'', PBool (\<forall>r\<in>set rs. fst r)),
                            (PStr ''operations'', PInt (int (length rs))),
                            (PStr ''details'',
                             PList (map (\<lambda>r. PDict [(PStr ''success'', PBool (fst r)),
                                                       (PStr ''message'', PStr (snd r))]) rs)),
                            (PStr ''reasoning'',
                             (case sh_edit_reasoning apply_example_shared of
                                None \<Rightarrow> PStr [] | Some v \<Rightarrow> v))])
           \<and> sh_edit_operations apply_example_result = None
           \<and> sh_edit_reasoning apply_example_result = None
           \<and> (\<forall>E' w0 cs. map_err replace_call ops = Inr cs \<longrightarrow>
                 (\<exists>rs0 w1. ApplyChangesNode_exec_all (E' :: (pyval \<Rightarrow> string option) env) w0 ops
                              = Inr (rs0, w1)
                    \<and> length rs0 = length ops \<and> calls w1 = calls w0 @ cs))"
    by (rule edit_result_aggregates [OF run ne])
qed

section \<open>A run that finishes at once\<close>




lemma example_finish_decision:
  "decision_of_response example_env ''tool: finish\<newline>reason: done\<newline>params: {}''
   = PDict [(PStr ''tool'', PStr ''finish''), (PStr ''reason'', PStr ''done''),
            (PStr ''params'', PDict [])]"
  by (simp add: decision_of_response_def parse_decision_def decision_yaml_content_def
      extract_yaml_content_def py_strip_def is_space_def example_env_def example_load_def)


lemma example_finish_run:
  "coding_agent_flow_run example_env 2
     (initial_shared ''say hello'' ''project'', \<lparr>fs = Map.empty, calls = []\<rparr>)
   = Some (Inr ((initial_shared ''say hello'' ''project'')
                  \<lparr> sh_history := [PDict [(PStr ''tool'', PStr ''finish''),
                                           (PStr ''reason'', PStr ''done''),
                                           (PStr ''params'', PDict [])]],
                    sh_response := Some ''tool: finish\<newline>reason: done\<newline>params: {}'',
                    sh_iteration_count := Some 1 \<rparr>,
                \<lparr>fs = Map.empty,
                 calls = [Call_llm (decision_prompt ''say hello'' ''No previous actions.''),
                          Call_llm (summary_prompt
                            ''\<newline>Action 1:\<newline>- Tool: finish\<newline>- Reason: done\<newline>'')]\<rparr>))"
proof -
  have llm: "call_llm example_env past prompt
             = Inr ''tool: finish\<newline>reason: done\<newline>params: {}''" for past prompt
    by (simp add: example_env_def)
  have two: "(2::nat) = Suc (Suc 0)" by simp
  show ?thesis
    unfolding two coding_agent_flow_run_def
    by (simp add: MainDecisionAgent_run_def MainDecisionAgent_prep_def MainDecisionAgent_exec_def
        MainDecisionAgent_post_def FormatResponseNode_run_def FormatResponseNode_exec_def
        FormatResponseNode_post_def format_history_summary_def format_action_def
        get_next_node_def initial_shared_def and_then_def llm example_finish_decision
        str_nat.simps)
qed



section \<open>The iteration limit\<close>

lemma cap_example_reply:
  "decision_of_response cap_example_env
     (''```yaml\<newline>tool: grep_search\<newline>reason: look for x\<newline>''
        @ ''params:\<newline>  query: x\<newline>```'')
   = cap_example_decision"
  by (simp add: decision_of_response_def parse_decision_def decision_yaml_content_def
      extract_yaml_content_def py_split_def py_strip_def is_space_def cap_example_env_def
      example_env_def example_load_def cap_example_decision_def)

lemma cap_example_history_text:
  "format_history_summary cap_example_env [cap_example_entry]
   = Inr (''\<newline>Action 1:\<newline>- Tool: grep_search\<newline>- Reason: look for x\<newline>''
            @ ''- Parameters:\<newline>  - query: x\<newline>- Result: Failed\<newline>'')"
  by (simp add: format_history_summary_def format_action_def format_param_def
      format_result_details_def cap_example_entry_def and_then_def str_nat.simps)

text \<open>
  C1. The claim asks that, once the counter exceeds the limit, the engine dispatch
  \<open>finish\<close> without asking the backend. In the source only \<open>prep\<close> reacts to the
  limit, by handing the word \<open>finish\<close> to \<open>exec\<close> in place of the request; \<open>exec\<close>
  still calls the backend and the engine dispatches what the reply says. Here the
  limit is 1 and one iteration is done: the second iteration calls the backend with
  the request \<open>finish\<close> and dispatches \<open>grep_search\<close>.
\<close>

theorem iteration_cap_not_enforced:
  "MainDecisionAgent_run cap_example_env (cap_example_shared, example_world)
   = Inr ((cap_example_shared
             \<lparr> sh_history := [cap_example_entry, cap_example_decision],
               sh_iteration_count := Some 2 \<rparr>,
           \<lparr>fs = Map.empty,
            calls = [Call_llm (decision_prompt ''finish''
                       (''\<newline>Action 1:\<newline>- Tool: grep_search\<newline>- Reason: look for x\<newline>''
                          @ ''- Parameters:\<newline>  - query: x\<newline>- Result: Failed\<newline>''))]\<rparr>),
          PStr ''grep_search'')"
proof -
  have prep: "MainDecisionAgent_prep cap_example_shared
              = (cap_example_shared\<lparr>sh_iteration_count := Some 2\<rparr>,
                 (''finish'', [cap_example_entry]))"
    by (simp add: MainDecisionAgent_prep_def cap_example_shared_def initial_shared_def)
  have llm: "call_llm cap_example_env past prompt
             = Inr (''```yaml\<newline>tool: grep_search\<newline>reason: look for x\<newline>''
                      @ ''params:\<newline>  query: x\<newline>```'')" for past prompt
    by (simp add: cap_example_env_def)
  have tool: "py_getitem cap_example_decision ''tool'' = Inr (PStr ''grep_search'')"
    by (simp add: cap_example_decision_def)
  have exec: "MainDecisionAgent_exec cap_example_env example_world (''finish'', [cap_example_entry])
              = Inr (cap_example_decision,
                     \<lparr>fs = Map.empty,
                      calls = [Call_llm (decision_prompt ''finish''
                         (''\<newline>Action 1:\<newline>- Tool: grep_search\<newline>- Reason: look for x\<newline>''
                            @ ''- Parameters:\<newline>  - query: x\<newline>- Result: Failed\<newline>''))]\<rparr>)"
    by (simp add: MainDecisionAgent_exec_def cap_example_history_text llm cap_example_reply
        and_then_def example_world_def del: append.simps)
  have post: "MainDecisionAgent_post (cap_example_shared\<lparr>sh_iteration_count := Some 2\<rparr>)
                cap_example_decision
              = Inr (cap_example_shared
                       \<lparr> sh_history := [cap_example_entry, cap_example_decision],
                         sh_iteration_count := Some 2 \<rparr>,
                     PStr ''grep_search'')"
    by (simp add: MainDecisionAgent_post_def tool and_then_def cap_example_shared_def
        initial_shared_def)
  show ?thesis
    by (simp add: MainDecisionAgent_run_def prep exec post and_then_def)
qed

text \<open>
  With that backend the loop never reaches the summarizing node, whatever the limit:
  no number of node runs is enough for the run to end.
\<close>

lemma concat_each_ok:
  "(\<forall>x\<in>set xs. \<exists>s. f x = Inr s) \<Longrightarrow> \<exists>t. concat_each f xs = Inr t"
proof (induction xs)
  case Nil
  show ?case by simp
next
  case (Cons x xs)
  then obtain s t where "f x = Inr s" "concat_each f xs = Inr t" by auto
  then show ?case by (simp add: and_then_def)
qed

lemma cap_entry_renders:
  "\<exists>s. format_action cap_example_env n (i, cap_example_entry) = Inr s"
  by (simp add: format_action_def format_param_def format_result_details_def
      cap_example_entry_def and_then_def)

lemma cap_history_renders:
  assumes "\<forall>e\<in>set h. e = cap_example_entry"
  shows "\<exists>t. format_history_summary cap_example_env h = Inr t"
proof (cases "h = []")
  case True
  then show ?thesis by (simp add: format_history_summary_def)
next
  case False
  have "\<forall>x\<in>set (zip [0..<length h] h).
          \<exists>s. format_action cap_example_env (length h) x = Inr s"
  proof
    fix x assume "x \<in> set (zip [0..<length h] h)"
    then have "snd x \<in> set h" by (metis in_set_zipE prod.collapse)
    with assms have "x = (fst x, cap_example_entry)" by (metis prod.collapse)
    then show "\<exists>s. format_action cap_example_env (length h) x = Inr s"
      using cap_entry_renders [of "length h" "fst x"] by simp
  qed
  from concat_each_ok [OF this] obtain t where
    "concat_each (format_action cap_example_env (length h)) (zip [0..<length h] h) = Inr t"
    by blast
  with False show ?thesis by (simp add: format_history_summary_def and_then_def)
qed

lemma cap_main_step:
  assumes "\<forall>e\<in>set (sh_history sh). e = cap_example_entry"
  shows "\<exists>sh' w'. MainDecisionAgent_run cap_example_env (sh, w)
                     = Inr ((sh', w'), PStr ''grep_search'')
           \<and> sh_history sh' = sh_history sh @ [cap_example_decision]"
proof -
  have "\<exists>sh0 q. MainDecisionAgent_prep sh = (sh0, (q, sh_history sh))
          \<and> sh_history sh0 = sh_history sh"
    by (simp add: MainDecisionAgent_prep_def Let_def)
  then obtain sh0 q where prep: "MainDecisionAgent_prep sh = (sh0, (q, sh_history sh))"
    and h0: "sh_history sh0 = sh_history sh"
    by blast
  from cap_history_renders [OF assms] obtain t where
    t: "format_history_summary cap_example_env (sh_history sh) = Inr t" by blast
  have llm: "call_llm cap_example_env past prompt
             = Inr (''```yaml\<newline>tool: grep_search\<newline>reason: look for x\<newline>''
                      @ ''params:\<newline>  query: x\<newline>```'')" for past prompt
    by (simp add: cap_example_env_def)
  have tool: "py_getitem cap_example_decision ''tool'' = Inr (PStr ''grep_search'')"
    by (simp add: cap_example_decision_def)
  have "MainDecisionAgent_run cap_example_env (sh, w)
        = Inr ((sh0\<lparr>sh_history := sh_history sh @ [cap_example_decision]\<rparr>,
                w\<lparr>calls := calls w @ [Call_llm (decision_prompt q t)]\<rparr>),
               PStr ''grep_search'')"
    by (simp add: MainDecisionAgent_run_def prep MainDecisionAgent_exec_def
        MainDecisionAgent_post_def t llm cap_example_reply tool h0 and_then_def
        del: append.simps)
  then show ?thesis by simp
qed

lemma cap_grep_step:
  assumes "sh_history sh = h @ [cap_example_decision]"
  shows "\<exists>sh' w'. GrepSearchAction_run cap_example_env (sh, w) = Inr ((sh', w'), PNone)
           \<and> sh_history sh' = h @ [cap_example_entry]"
  using assms
  by (simp add: GrepSearchAction_run_def GrepSearchAction_prep_def GrepSearchAction_exec_def
      GrepSearchAction_post_def last_action_of_def set_last_field_def and_then_def
      cap_example_decision_def cap_example_entry_def cap_example_env_def example_env_def)

lemma cap_loop_never_ends:
  "(\<forall>sh w. (\<forall>e\<in>set (sh_history sh). e = cap_example_entry)
       \<longrightarrow> orch cap_example_env fuel main_agent (sh, w) = None)
   \<and> (\<forall>sh w h. sh_history sh = h @ [cap_example_decision]
         \<and> (\<forall>e\<in>set h. e = cap_example_entry)
       \<longrightarrow> orch cap_example_env fuel grep_action (sh, w) = None)"
proof (induction fuel)
  case 0
  show ?case by simp
next
  case (Suc fuel)
  show ?case
  proof (intro conjI allI impI)
    fix sh :: shared and w :: "(pyval \<Rightarrow> string option) world"
    assume good: "\<forall>e\<in>set (sh_history sh). e = cap_example_entry"
    from cap_main_step [OF good, of w] obtain sh' w' where
      step: "MainDecisionAgent_run cap_example_env (sh, w) = Inr ((sh', w'), PStr ''grep_search'')"
      and h': "sh_history sh' = sh_history sh @ [cap_example_decision]"
      by blast
    from Suc.IH h' good have "orch cap_example_env fuel grep_action (sh', w') = None"
      by blast
    with step show "orch cap_example_env (Suc fuel) main_agent (sh, w) = None"
      by (simp add: get_next_node_def)
  next
    fix sh :: shared and w :: "(pyval \<Rightarrow> string option) world" and h
    assume a: "sh_history sh = h @ [cap_example_decision]
               \<and> (\<forall>e\<in>set h. e = cap_example_entry)"
    from cap_grep_step [of sh h w] a obtain sh' w' where
      step: "GrepSearchAction_run cap_example_env (sh, w) = Inr ((sh', w'), PNone)"
      and h': "sh_history sh' = h @ [cap_example_entry]"
      by blast
    from a h' have "\<forall>e\<in>set (sh_history sh'). e = cap_example_entry" by simp
    with Suc.IH have "orch cap_example_env fuel main_agent (sh', w') = None" by blast
    with step show "orch cap_example_env (Suc fuel) grep_action (sh, w) = None"
      by (simp add: get_next_node_def)
  qed
qed

lemma cap_run_never_ends:
  "run_flow_with_limit cap_example_env fuel (initial_shared query working_dir, w) max_iterations
   = None"
proof -
  have "orch cap_example_env fuel main_agent
          ((initial_shared query working_dir)
             \<lparr>sh_iteration_count := Some 0, sh_max_iterations := Some max_iterations\<rparr>, w)
        = None"
    using cap_loop_never_ends [of fuel] by (simp add: initial_shared_def)
  then show ?thesis
    by (simp add: run_flow_with_limit_def coding_agent_flow_run_def)
qed

section \<open>Bottom-up application of a plan\<close>

lemma slice_prefix:
  assumes "take n cur = take n orig" and "nat e \<le> n" and "1 \<le> s" and "s \<le> e"
  shows "slice cur s e = slice orig s e"
proof -
  have sum: "nat (s - 1) + nat (e - s + 1) = nat e" using assms(3,4) by simp
  have "take (nat e) cur = take (nat e) orig"
    using assms(1,2) by (metis min.absorb_iff1 take_take)
  then have "drop (nat (s - 1)) (take (nat e) cur) = drop (nat (s - 1)) (take (nat e) orig)"
    by simp
  then show ?thesis
    unfolding slice_def by (simp add: drop_take sum [symmetric])
qed

lemma unshifted_below:
  assumes "take n cur = take n orig"
    and "\<forall>t\<in>set ts. 1 \<le> fst t \<and> fst t \<le> fst (snd t) \<and> nat (fst (snd t)) \<le> n
                      \<and> nat (fst t - 1) \<le> length orig"
    and "below_earlier ts"
  shows "unshifted_run orig cur ts"
  using assms
proof (induction ts arbitrary: n cur)
  case Nil
  show ?case by simp
next
  case (Cons t ts)
  obtain s e r where t: "t = (s, e, r)" by (cases t) auto
  from Cons.prems(2) t have b: "1 \<le> s" "s \<le> e" "nat e \<le> n" "nat (s - 1) \<le> length orig"
    by auto
  have sl: "slice cur s e = slice orig s e"
    by (rule slice_prefix [OF Cons.prems(1) b(3) b(1) b(2)])
  let ?m = "nat (s - 1)"
  have mn: "?m \<le> n" using b by linarith
  have pre: "take ?m cur = take ?m orig"
    using Cons.prems(1) mn by (metis min.absorb_iff1 take_take)
  have "length (take ?m orig) = ?m" using b(4) by simp
  with pre have len: "length (take ?m cur) = ?m" by simp
  have "take ?m (spec_replace_range cur s e r) = take ?m (take ?m cur)"
    unfolding spec_replace_range_def using len by simp
  then have new: "take ?m (spec_replace_range cur s e r) = take ?m orig"
    using pre by simp
  have rest: "\<forall>t'\<in>set ts. 1 \<le> fst t' \<and> fst t' \<le> fst (snd t')
                \<and> nat (fst (snd t')) \<le> ?m \<and> nat (fst t' - 1) \<le> length orig"
  proof
    fix t' assume in_ts: "t' \<in> set ts"
    with Cons.prems(2) have v: "1 \<le> fst t'" "fst t' \<le> fst (snd t')"
      "nat (fst t' - 1) \<le> length orig" by auto
    from Cons.prems(3) t in_ts have "fst (snd t') < s" by auto
    then have "nat (fst (snd t')) \<le> ?m" by linarith
    with v show "1 \<le> fst t' \<and> fst t' \<le> fst (snd t')
                \<and> nat (fst (snd t')) \<le> ?m \<and> nat (fst t' - 1) \<le> length orig"
      by simp
  qed
  from Cons.prems(3) t have "below_earlier ts" by simp
  from Cons.IH [OF new rest this] sl show ?case by (simp add: t)
qed

lemma map_err_all:
  "(\<forall>x\<in>set xs. f x = Inr (g x)) \<Longrightarrow> map_err f xs = Inr (map g xs)"
  by (induction xs) (simp_all add: and_then_def)

lemma operation_ok_shape:
  assumes "operation_ok total_lines op"
  shows "\<exists>d s e r. op = PDict d \<and> map_of d (PStr ''start_line'') = Some s
           \<and> map_of d (PStr ''end_line'') = Some e \<and> map_of d (PStr ''replacement'') = Some r
           \<and> is_int s \<and> is_int e \<and> 1 \<le> int_of s \<and> int_of s \<le> int_of e
           \<and> int_of e \<le> total_lines + 1"
  using assms
  by (auto simp: operation_ok_def split: pyval.splits option.splits)

lemma operation_ok_range:
  assumes "operation_ok total_lines op"
  shows "start_line_key op = Inr (start_of op)"
    and "1 \<le> start_of op" and "start_of op \<le> end_of op" and "end_of op \<le> total_lines + 1"
    and "\<exists>d. op = PDict d"
  using operation_ok_shape [OF assms]
  by (auto simp: start_line_key_def start_of_def end_of_def and_then_def)

lemma tag_operation_range:
  "start_of (tag_operation path op) = start_of op"
  "end_of (tag_operation path op) = end_of op"
  by (cases op; simp add: tag_operation_def start_of_def end_of_def map_of_dict_set)+

lemma tag_operation_set:
  "op = PDict d \<Longrightarrow> py_setitem op ''target_file'' path = Inr (tag_operation path op)"
  by (simp add: tag_operation_def)

lemma sorted_by_start_desc_valid:
  assumes ok: "\<forall>op\<in>set ops. operation_ok total_lines op"
  shows "\<exists>sorted_ops. sorted_by_start_desc (PList ops) = Inr sorted_ops
           \<and> mset sorted_ops = mset ops
           \<and> sorted_wrt (\<lambda>a b. start_of a \<ge> start_of b) sorted_ops"
proof -
  let ?keyed = "zip (map start_of ops) ops"
  let ?f = "\<lambda>kop :: int \<times> pyval. - fst kop"
  let ?ys = "sort_key ?f ?keyed"
  have keys: "map_err start_line_key ops = Inr (map start_of ops)"
    using ok operation_ok_range(1) by (intro map_err_all) blast
  then have eq: "sorted_by_start_desc (PList ops) = Inr (map snd ?ys)"
    by (simp add: sorted_by_start_desc_def and_then_def)
  have "mset ?ys = mset ?keyed" by simp
  then have "mset (map snd ?ys) = mset (map snd ?keyed)"
    by (metis mset_map)
  then have perm: "mset (map snd ?ys) = mset ops" by simp
  have "set ?ys = set ?keyed" by simp
  then have fst_snd: "\<forall>kop\<in>set ?ys. fst kop = start_of (snd kop)"
    by (auto simp: set_zip)
  have "sorted (map ?f ?ys)" by (rule sorted_sort_key)
  then have "sorted_wrt (\<lambda>x y. ?f x \<le> ?f y) ?ys" by (simp add: sorted_map)
  then have "sorted_wrt (\<lambda>x y. start_of (snd x) \<ge> start_of (snd y)) ?ys"
  proof (rule sorted_wrt_mono_rel [rotated])
    fix x y assume x: "x \<in> set ?ys" and y: "y \<in> set ?ys" and le: "?f x \<le> ?f y"
    from fst_snd x have "fst x = start_of (snd x)" by blast
    moreover from fst_snd y have "fst y = start_of (snd y)" by blast
    ultimately show "start_of (snd y) \<le> start_of (snd x)" using le by simp
  qed
  then have "sorted_wrt (\<lambda>a b. start_of a \<ge> start_of b) (map snd ?ys)"
    by (simp add: sorted_wrt_map)
  with eq perm show ?thesis by blast
qed

lemma below_earlier_sorted:
  assumes "sorted_wrt (\<lambda>a b. start_of a \<ge> start_of b) xs"
    and "distinct xs"
    and "\<forall>a\<in>set xs. \<forall>b\<in>set xs. a \<noteq> b \<longrightarrow> ranges_disjoint a b"
    and "\<forall>a\<in>set xs. start_of a \<le> end_of a"
  shows "below_earlier (map (\<lambda>op. (start_of op, end_of op, rl op)) xs)"
  using assms
proof (induction xs)
  case Nil
  show ?case by simp
next
  case (Cons x xs)
  have "\<forall>y\<in>set xs. end_of y < start_of x"
  proof
    fix y assume y: "y \<in> set xs"
    with Cons.prems(2) have "x \<noteq> y" by auto
    with Cons.prems(3) y have "ranges_disjoint x y" by simp
    moreover from Cons.prems(1) y have "start_of y \<le> start_of x" by simp
    moreover from Cons.prems(4) have "start_of x \<le> end_of x" by simp
    ultimately show "end_of y < start_of x" by (auto simp: ranges_disjoint_def)
  qed
  moreover have "below_earlier (map (\<lambda>op. (start_of op, end_of op, rl op)) xs)"
    using Cons by simp
  ultimately show ?case by simp
qed

lemma apply_prep_shape:
  assumes "sh_edit_operations sh = Some (PList ops)" and "ops \<noteq> []"
    and "sorted_by_start_desc (PList ops) = Inr sorted_ops"
    and "ApplyChangesNode_prep sh = Inr (sh1, prepared)"
  shows "\<exists>path. map_err (\<lambda>op. py_setitem op ''target_file'' path) sorted_ops = Inr prepared"
  using assms
  by (auto simp: ApplyChangesNode_prep_def and_then_def Let_def
      split: sum.splits if_splits)

lemma map_err_some:
  "(\<forall>x\<in>set xs. \<exists>y. f x = Inr y) \<Longrightarrow> \<exists>ys. map_err f xs = Inr ys"
  by (induction xs) (auto simp: and_then_def)

lemma replace_call_tagged:
  assumes "operation_ok total_lines op"
  shows "\<exists>c. replace_call (tag_operation path op) = Inr c"
proof -
  from operation_ok_shape [OF assms] obtain d s e r where
    "op = PDict d" "map_of d (PStr ''start_line'') = Some s"
    "map_of d (PStr ''end_line'') = Some e" "map_of d (PStr ''replacement'') = Some r"
    by blast
  then show ?thesis
    by (simp add: replace_call_def tag_operation_def map_of_dict_set and_then_def)
qed

lemma filter_snd_zip:
  "length ks = length xs \<Longrightarrow>
   map snd (filter (\<lambda>kop. P (snd kop)) (zip ks xs)) = filter P xs"
  by (induction ks xs rule: list_induct2) auto

lemma sorted_by_start_desc_stable:
  assumes ok: "\<forall>op\<in>set ops. operation_ok total_lines op"
    and srt: "sorted_by_start_desc (PList ops) = Inr sorted_ops"
  shows "filter (\<lambda>op. start_of op = k) sorted_ops = filter (\<lambda>op. start_of op = k) ops"
proof -
  let ?keyed = "zip (map start_of ops) ops"
  let ?f = "\<lambda>kop :: int \<times> pyval. - fst kop"
  let ?ys = "sort_key ?f ?keyed"
  have keys: "map_err start_line_key ops = Inr (map start_of ops)"
    using ok operation_ok_range(1) by (intro map_err_all) blast
  with srt have eq: "sorted_ops = map snd ?ys"
    by (simp add: sorted_by_start_desc_def and_then_def)
  have fst_snd: "\<forall>kop\<in>set ?keyed. fst kop = start_of (snd kop)"
    by (auto simp: set_zip)
  have "set ?ys = set ?keyed" by simp
  with fst_snd have fst_snd': "\<forall>kop\<in>set ?ys. fst kop = start_of (snd kop)" by simp
  have a: "filter (\<lambda>kop. start_of (snd kop) = k) ?ys = filter (\<lambda>kop. ?f kop = - k) ?ys"
    using fst_snd' by (intro filter_cong) auto
  have b: "filter (\<lambda>kop. ?f kop = - k) ?ys = filter (\<lambda>kop. ?f kop = - k) ?keyed"
    by (rule sort_key_stable)
  have c: "filter (\<lambda>kop. ?f kop = - k) ?keyed = filter (\<lambda>kop. start_of (snd kop) = k) ?keyed"
    using fst_snd by (intro filter_cong) auto
  have "filter (\<lambda>op. start_of op = k) (map snd ?ys)
          = map snd (filter (\<lambda>kop. start_of (snd kop) = k) ?ys)"
    by (simp add: filter_map comp_def)
  also have "\<dots> = map snd (filter (\<lambda>kop. start_of (snd kop) = k) ?keyed)"
    by (simp only: a b c)
  also have "\<dots> = filter (\<lambda>op. start_of op = k) ops"
    by (rule filter_snd_zip) simp
  finally show ?thesis by (simp only: eq)
qed

text \<open>
  C5, as amended. For every validated plan, \<open>ApplyChangesNode.prep\<close> hands over the
  plan's operations sorted by \<open>start_line\<close> in descending order: a rearrangement of the
  plan in which operations with the same start line keep the order they had in the
  plan, each operation with the target path written in. The batch then runs to its
  end for any replace primitive and calls the primitive for the operations one after
  the other in exactly that order. When in addition the plan's operations are distinct
  and their line ranges are pairwise disjoint, then, under the specification's account
  of the replace primitive, every operation at the moment it is applied names the same
  lines in the current file as in the original file, whatever lines the replacement
  texts stand for.
\<close>

theorem bottom_up_application:
  assumes plan: "sh_edit_operations sh = Some (PList ops)" and ne: "ops \<noteq> []"
    and valid: "validate_operations E (int (length file_lines)) 0 ops = Inr ()"
    and prep: "ApplyChangesNode_prep sh = Inr (sh1, prepared)"
  shows "\<exists>sorted_ops path cs.
           sorted_by_start_desc (PList ops) = Inr sorted_ops
           \<and> mset sorted_ops = mset ops
           \<and> sorted_wrt (\<lambda>a b. start_of a \<ge> start_of b) sorted_ops
           \<and> (\<forall>k. filter (\<lambda>op. start_of op = k) sorted_ops
                    = filter (\<lambda>op. start_of op = k) ops)
           \<and> prepared = map (tag_operation path) sorted_ops
           \<and> map_err replace_call prepared = Inr cs
           \<and> (\<forall>E' w. \<exists>rs w'. ApplyChangesNode_exec_all E' w prepared = Inr (rs, w')
                              \<and> calls w' = calls w @ cs)
           \<and> (distinct ops
                \<and> (\<forall>a\<in>set ops. \<forall>b\<in>set ops. a \<noteq> b \<longrightarrow> ranges_disjoint a b)
                \<longrightarrow> (\<forall>rl. unshifted_run file_lines file_lines
                              (map (\<lambda>op. (start_of op, end_of op, rl op)) prepared)))"
proof -
  let ?n = "int (length file_lines)"
  from valid have ok: "\<forall>op\<in>set ops. operation_ok ?n op"
    by (simp add: validate_operations_ok)
  from sorted_by_start_desc_valid [OF ok] obtain sorted_ops where
    srt: "sorted_by_start_desc (PList ops) = Inr sorted_ops"
    and perm: "mset sorted_ops = mset ops"
    and desc: "sorted_wrt (\<lambda>a b. start_of a \<ge> start_of b) sorted_ops"
    by blast
  have stable: "\<forall>k. filter (\<lambda>op. start_of op = k) sorted_ops
                     = filter (\<lambda>op. start_of op = k) ops"
    using sorted_by_start_desc_stable [OF ok srt] by blast
  from perm have sets: "set sorted_ops = set ops" by (rule mset_eq_setD)
  from apply_prep_shape [OF plan ne srt prep] obtain path where
    tagged: "map_err (\<lambda>op. py_setitem op ''target_file'' path) sorted_ops = Inr prepared"
    by blast
  have "\<forall>op\<in>set sorted_ops. py_setitem op ''target_file'' path = Inr (tag_operation path op)"
    using ok sets operation_ok_range(5) tag_operation_set by blast
  from map_err_all [OF this] tagged have prepared: "prepared = map (tag_operation path) sorted_ops"
    by simp
  have "\<forall>op\<in>set prepared. \<exists>c. replace_call op = Inr c"
    using ok sets replace_call_tagged by (auto simp: prepared)
  from map_err_some [OF this] obtain cs where cs: "map_err replace_call prepared = Inr cs"
    by blast
  have order: "\<exists>rs w'. ApplyChangesNode_exec_all E' w prepared = Inr (rs, w')
                  \<and> calls w' = calls w @ cs" for E' :: "'c env" and w
  proof -
    from exec_all_total [OF cs] obtain rs w' where
      run: "ApplyChangesNode_exec_all E' w prepared = Inr (rs, w')" by blast
    from exec_all_shape [OF run] cs have "calls w' = calls w @ cs" by simp
    with run show ?thesis by blast
  qed
  have unshifted: "unshifted_run file_lines file_lines
                     (map (\<lambda>op. (start_of op, end_of op, rl op)) prepared)"
    if dist: "distinct ops"
      and disj: "\<forall>a\<in>set ops. \<forall>b\<in>set ops. a \<noteq> b \<longrightarrow> ranges_disjoint a b" for rl
  proof -
    from perm dist have dist': "distinct sorted_ops" by (metis mset_eq_imp_distinct_iff)
    let ?ts = "map (\<lambda>op. (start_of op, end_of op, (rl \<circ> tag_operation path) op)) sorted_ops"
    have ts: "map (\<lambda>op. (start_of op, end_of op, rl op)) prepared = ?ts"
      by (simp add: prepared tag_operation_range comp_def)
    have range: "\<forall>a\<in>set sorted_ops. 1 \<le> start_of a \<and> start_of a \<le> end_of a
                   \<and> end_of a \<le> ?n + 1"
      using ok sets operation_ok_range(2-4) by blast
    have below: "below_earlier ?ts"
      using desc dist' disj range by (intro below_earlier_sorted) (simp_all add: sets)
    have bounds: "\<forall>t\<in>set ?ts. 1 \<le> fst t \<and> fst t \<le> fst (snd t)
                    \<and> nat (fst (snd t)) \<le> nat (?n + 1)
                    \<and> nat (fst t - 1) \<le> length file_lines"
    proof
      fix t assume "t \<in> set ?ts"
      then obtain a where a: "a \<in> set sorted_ops"
        and t: "t = (start_of a, end_of a, (rl \<circ> tag_operation path) a)"
        by auto
      from range a have "1 \<le> start_of a" "start_of a \<le> end_of a" "end_of a \<le> ?n + 1"
        by auto
      moreover from this have "nat (end_of a) \<le> nat (?n + 1)"
        "nat (start_of a - 1) \<le> length file_lines"
        by linarith+
      ultimately show "1 \<le> fst t \<and> fst t \<le> fst (snd t)
                    \<and> nat (fst (snd t)) \<le> nat (?n + 1)
                    \<and> nat (fst t - 1) \<le> length file_lines"
        by (simp add: t)
    qed
    have "unshifted_run file_lines file_lines ?ts"
      by (rule unshifted_below [OF refl bounds below])
    then show ?thesis by (simp only: ts)
  qed
  from srt perm desc stable prepared cs order unshifted show ?thesis by blast
qed


theorem bottom_up_application_witness:
  "sh_edit_operations apply_example_shared = Some (PList apply_example_plan)
   \<and> apply_example_plan \<noteq> []
   \<and> validate_operations example_env (int (length [''a'', ''b'', ''c''])) 0 apply_example_plan
       = Inr ()
   \<and> ApplyChangesNode_prep apply_example_shared
       = Inr (apply_example_shared
                \<lparr>sh_edit_operations := Some (PList (rev apply_example_prepared))\<rparr>,
              apply_example_prepared)
   \<and> distinct apply_example_plan
   \<and> (\<exists>sorted_ops path cs.
           sorted_by_start_desc (PList apply_example_plan) = Inr sorted_ops
           \<and> mset sorted_ops = mset apply_example_plan
           \<and> sorted_wrt (\<lambda>a b. start_of a \<ge> start_of b) sorted_ops
           \<and> (\<forall>k. filter (\<lambda>op. start_of op = k) sorted_ops
                    = filter (\<lambda>op. start_of op = k) apply_example_plan)
           \<and> apply_example_prepared = map (tag_operation path) sorted_ops
           \<and> map_err replace_call apply_example_prepared = Inr cs
           \<and> (\<forall>E' w. \<exists>rs w'.
                 ApplyChangesNode_exec_all (E' :: (pyval \<Rightarrow> string option) env) w
                   apply_example_prepared = Inr (rs, w')
                 \<and> calls w' = calls w @ cs)
           \<and> (\<forall>rl. unshifted_run [''a'', ''b'', ''c''] [''a'', ''b'', ''c'']
                       (map (\<lambda>op. (start_of op, end_of op, rl op)) apply_example_prepared)))"
proof (intro conjI)
  show h1: "sh_edit_operations apply_example_shared = Some (PList apply_example_plan)"
    by (simp add: apply_example_shared_def initial_shared_def apply_example_plan_def)
  show h2: "apply_example_plan \<noteq> []"
    by (simp add: apply_example_plan_def)
  show h3: "validate_operations example_env (int (length [''a'', ''b'', ''c''])) 0
              apply_example_plan = Inr ()"
    by (simp add: apply_example_plan_def check_operation_def and_then_def)
  show h4: "ApplyChangesNode_prep apply_example_shared
       = Inr (apply_example_shared
                \<lparr>sh_edit_operations := Some (PList (rev apply_example_prepared))\<rparr>,
              apply_example_prepared)"
    by (simp add: ApplyChangesNode_prep_def sorted_by_start_desc_def start_line_key_def
        apply_example_shared_def initial_shared_def apply_example_prepared_def
        last_action_of_def full_path_of_def os_path_join_def and_then_def)
  show h5: "distinct apply_example_plan"
    by (simp add: apply_example_plan_def)
  have h6: "\<forall>a\<in>set apply_example_plan. \<forall>b\<in>set apply_example_plan.
              a \<noteq> b \<longrightarrow> ranges_disjoint a b"
    by (simp add: apply_example_plan_def ranges_disjoint_def start_of_def end_of_def)
  from bottom_up_application [OF h1 h2 h3 h4] obtain sorted_ops path cs where
    r: "sorted_by_start_desc (PList apply_example_plan) = Inr sorted_ops"
      "mset sorted_ops = mset apply_example_plan"
      "sorted_wrt (\<lambda>a b. start_of a \<ge> start_of b) sorted_ops"
      "\<forall>k. filter (\<lambda>op. start_of op = k) sorted_ops
             = filter (\<lambda>op. start_of op = k) apply_example_plan"
      "apply_example_prepared = map (tag_operation path) sorted_ops"
      "map_err replace_call apply_example_prepared = Inr cs"
      "\<forall>(E' :: (pyval \<Rightarrow> string option) env) w. \<exists>rs w'.
          ApplyChangesNode_exec_all E' w apply_example_prepared = Inr (rs, w')
          \<and> calls w' = calls w @ cs"
    and imp: "distinct apply_example_plan
              \<and> (\<forall>a\<in>set apply_example_plan. \<forall>b\<in>set apply_example_plan.
                     a \<noteq> b \<longrightarrow> ranges_disjoint a b)
              \<longrightarrow> (\<forall>rl. unshifted_run [''a'', ''b'', ''c''] [''a'', ''b'', ''c'']
                       (map (\<lambda>op. (start_of op, end_of op, rl op)) apply_example_prepared))"
    by blast
  from imp h5 h6 have u: "\<forall>rl. unshifted_run [''a'', ''b'', ''c''] [''a'', ''b'', ''c'']
                       (map (\<lambda>op. (start_of op, end_of op, rl op)) apply_example_prepared)"
    by blast
  from r u show "\<exists>sorted_ops path cs.
           sorted_by_start_desc (PList apply_example_plan) = Inr sorted_ops
           \<and> mset sorted_ops = mset apply_example_plan
           \<and> sorted_wrt (\<lambda>a b. start_of a \<ge> start_of b) sorted_ops
           \<and> (\<forall>k. filter (\<lambda>op. start_of op = k) sorted_ops
                    = filter (\<lambda>op. start_of op = k) apply_example_plan)
           \<and> apply_example_prepared = map (tag_operation path) sorted_ops
           \<and> map_err replace_call apply_example_prepared = Inr cs
           \<and> (\<forall>E' w. \<exists>rs w'.
                 ApplyChangesNode_exec_all (E' :: (pyval \<Rightarrow> string option) env) w
                   apply_example_prepared = Inr (rs, w')
                 \<and> calls w' = calls w @ cs)
           \<and> (\<forall>rl. unshifted_run [''a'', ''b'', ''c''] [''a'', ''b'', ''c'']
                       (map (\<lambda>op. (start_of op, end_of op, rl op)) apply_example_prepared))"
    by blast
qed

text \<open>
  C5 as stated fails for a validated plan whose ranges overlap. For a file of five
  lines the plan with ranges 2 to 4 and 3 to 3 passes validation; the applier takes
  the range 3 to 3 first; once its two replacement lines are in, the range 2 to 4 no
  longer names the lines \<open>l2\<close>, \<open>l3\<close>, \<open>l4\<close> it named in the original file.
\<close>

theorem bottom_up_overlap_counterexample:
  "validate_operations example_env 5 0 overlap_example_plan = Inr ()
   \<and> sorted_by_start_desc (PList overlap_example_plan) = Inr (rev overlap_example_plan)
   \<and> spec_replace_range [''l1'', ''l2'', ''l3'', ''l4'', ''l5''] 3 3 [''x'', ''y'']
       = [''l1'', ''l2'', ''x'', ''y'', ''l4'', ''l5'']
   \<and> slice [''l1'', ''l2'', ''x'', ''y'', ''l4'', ''l5''] 2 4 = [''l2'', ''x'', ''y'']
   \<and> slice [''l1'', ''l2'', ''l3'', ''l4'', ''l5''] 2 4 = [''l2'', ''l3'', ''l4'']
   \<and> \<not> unshifted_run [''l1'', ''l2'', ''l3'', ''l4'', ''l5''] [''l1'', ''l2'', ''l3'', ''l4'', ''l5'']
         [(3, 3, [''x'', ''y'']), (2, 4, [''z''])]"
  by (simp add: overlap_example_plan_def check_operation_def and_then_def
      sorted_by_start_desc_def start_line_key_def spec_replace_range_def slice_def)

end
